theory Spec2Isabelle
  imports Complex_Main
begin

section \<open>JavaScript values used by the components\<close>

text \<open>
  The step number field of the Steps form holds text (\<open>''\<close>, or the \<open>'1'\<close> that
  \<open>handleAddShow\<close> puts there), a number (the result of \<open>parseInt(value, 10)\<close> in
  \<open>handleChange\<close>, or a row's column copied by \<open>handleEditShow\<close>), or \<open>NaN\<close> (what
  \<open>parseInt\<close> gives for the placeholder option).
\<close>

datatype field = Text string | Number int | NaN

text \<open>JavaScript truthiness: \<open>''\<close>, \<open>0\<close> and \<open>NaN\<close> are falsy.\<close>

fun truthy :: "field \<Rightarrow> bool" where
  "truthy (Text s) = (s \<noteq> [])"
| "truthy (Number n) = (n \<noteq> 0)"
| "truthy NaN = False"

text \<open>
  A form field that holds a foreign key (\<open>company_id\<close>, \<open>product_id\<close>): \<open>''\<close> when the
  form is opened for adding (\<open>NoKey\<close>), and after that the result of
  \<open>parseInt(value, 10)\<close> in \<open>handleChange\<close>, a number (\<open>Key n\<close>) or \<open>NaN\<close> for the
  placeholder option (\<open>KeyNaN\<close>), or the numeric column that \<open>handleEditShow\<close> copies
  from a row. It never holds other text.
\<close>

datatype key_field = NoKey | Key int | KeyNaN

fun truthy_key :: "key_field \<Rightarrow> bool" where
  "truthy_key NoKey = False"
| "truthy_key (Key n) = (n \<noteq> 0)"
| "truthy_key KeyNaN = False"

text \<open>
  \<open>x === parseInt(f)\<close> for a number \<open>x\<close> and a key field \<open>f\<close>: \<open>parseInt\<close> leaves an
  integer as it is and turns \<open>''\<close> into \<open>NaN\<close>, and \<open>NaN\<close> is equal to nothing.
\<close>

fun equals_parseInt :: "int \<Rightarrow> key_field \<Rightarrow> bool" where
  "equals_parseInt x (Key n) = (x = n)"
| "equals_parseInt x NoKey = False"
| "equals_parseInt x KeyNaN = False"

text \<open>
  Strings are lists of code units below 256. \<open>String.prototype.trim\<close> removes white space
  and line terminators from both ends; below 256 these are U+0009 to U+000D, U+0020 and
  U+00A0.
\<close>

definition is_whitespace :: "char \<Rightarrow> bool" where
  "is_whitespace c = ((of_char c :: nat) \<in> {9, 10, 11, 12, 13, 32, 160})"

definition trim :: "string \<Rightarrow> string" where
  "trim s = rev (dropWhile is_whitespace (rev (dropWhile is_whitespace s)))"

text \<open>
  \<open>toLowerCase\<close> on code units below 256: A to Z and the accented capitals U+00C0 to
  U+00DE (without the multiplication sign U+00D7) move up by 32.
\<close>

definition lower_char :: "char \<Rightarrow> char" where
  "lower_char c =
     (let n = (of_char c :: nat)
      in if (65 \<le> n \<and> n \<le> 90) \<or> (192 \<le> n \<and> n \<le> 222 \<and> n \<noteq> 215)
         then char_of (n + 32) else c)"

definition toLowerCase :: "string \<Rightarrow> string" where
  "toLowerCase s = map lower_char s"

fun startsWith :: "string \<Rightarrow> string \<Rightarrow> bool" where
  "startsWith s [] = True"
| "startsWith [] (p # ps) = False"
| "startsWith (c # cs) (p # ps) = (c = p \<and> startsWith cs ps)"

text \<open>\<open>s.includes(sub)\<close>: \<open>sub\<close> occurs somewhere in \<open>s\<close>.\<close>

fun str_includes :: "string \<Rightarrow> string \<Rightarrow> bool" where
  "str_includes [] sub = (sub = [])"
| "str_includes (c # cs) sub = (startsWith (c # cs) sub \<or> str_includes cs sub)"

text \<open>
  \<open>x || fallback\<close> for a string that may be undefined: the fallback is taken when \<open>x\<close> is
  undefined or empty.
\<close>

definition or_else :: "string option \<Rightarrow> string \<Rightarrow> string" where
  "or_else x fallback = (case x of None \<Rightarrow> fallback | Some m \<Rightarrow> if m = [] then fallback else m)"

subsection \<open>Thrown values\<close>

text \<open>
  What a \<open>catch\<close> block reads from the value it caught. \<open>err_response_data\<close> is
  \<open>error.response?.data\<close>: \<open>None\<close> when the request got no response (a network error, an
  exception that axios did not raise) or the response has no body. An awaited call is
  modelled by its outcome, \<open>Inl\<close> the thrown value and \<open>Inr\<close> the value returned.
\<close>

record response_data =
  data_message :: "string option"
  data_error :: "string option"

record js_error =
  err_name :: "string option"
  err_message :: "string option"
  err_response_data :: "response_data option"

text \<open>\<open>error.response?.data?.message\<close> and \<open>error.response?.data?.error\<close>.\<close>

definition response_message :: "js_error \<Rightarrow> string option" where
  "response_message e = (case err_response_data e of None \<Rightarrow> None | Some d \<Rightarrow> data_message d)"

definition response_error :: "js_error \<Rightarrow> string option" where
  "response_error e = (case err_response_data e of None \<Rightarrow> None | Some d \<Rightarrow> data_error d)"

section \<open>Session store (AuthContext)\<close>

text \<open>
  \<open>localStorage\<close> is a map from keys to strings; \<open>getItem\<close> of a missing key is \<open>null\<close>
  (\<open>None\<close>). The session state is the \<open>auth\<close> object together with the storage.
\<close>

type_synonym localStorage = "string \<rightharpoonup> string"

record 'id user =
  user_id :: 'id
  user_username :: "string option"

record 'id auth =
  loading :: bool
  isAuthenticated :: bool
  user :: "'id user option"
  token :: "string option"

type_synonym 'id session = "'id auth \<times> localStorage"

text \<open>
  A JavaScript number as a comparison reads it: a finite double (\<open>Num\<close>; every finite
  double is a rational, and \<open><\<close> on finite doubles is \<open><\<close> on their values), an
  infinity, or \<open>NaN\<close>. \<open>less_than x t\<close> is \<open>x < t\<close> for a finite \<open>t\<close>; a comparison with
  \<open>NaN\<close> is false.
\<close>

datatype js_number = Num rat | PlusInfinity | MinusInfinity | NotANumber

fun less_than :: "js_number \<Rightarrow> rat \<Rightarrow> bool" where
  "less_than (Num x) t = (x < t)"
| "less_than PlusInfinity t = False"
| "less_than MinusInfinity t = True"
| "less_than NotANumber t = False"

text \<open>
  The payload \<open>jwt_decode\<close> returns. \<open>jwt_exp\<close> is \<open>decoded.exp\<close> as the comparison
  \<open>decoded.exp < currentTime\<close> reads it: the number itself, an infinity for a JSON number
  beyond the range of doubles, and \<open>NaN\<close> for a payload without \<open>exp\<close> or with one that
  is no number. The decoder belongs to the jwt-decode library and is a parameter of
  \<open>loadUser\<close>: \<open>None\<close> stands for a token on which it throws.
\<close>

record 'id jwt_payload =
  jwt_exp :: js_number
  jwt_sub :: 'id

definition unauthenticated :: "'id auth" where
  "unauthenticated = \<lparr>loading = False, isAuthenticated = False, user = None, token = None\<rparr>"

text \<open>The initial \<open>useState\<close> value: \<open>token: localStorage.getItem('token') || null\<close>.\<close>

definition initial_auth :: "localStorage \<Rightarrow> 'id auth" where
  "initial_auth ls =
     \<lparr>loading = True, isAuthenticated = False, user = None,
      token = (case ls ''token'' of None \<Rightarrow> None | Some t \<Rightarrow> if t = [] then None else Some t)\<rparr>"

definition initial_session :: "localStorage \<Rightarrow> 'id session" where
  "initial_session ls = (initial_auth ls, ls)"

text \<open>
  \<open>loadUser\<close>, the hydration run by the mount effect. \<open>currentTime\<close> is the double that
  \<open>Date.now() / 1000\<close> evaluates to, rounding included: the division is done by the
  JavaScript engine and its result is an input here.
\<close>

definition loadUser ::
  "(string \<Rightarrow> 'id jwt_payload option) \<Rightarrow> rat \<Rightarrow> localStorage \<Rightarrow> 'id session" where
  "loadUser jwt_decode currentTime ls =
     (case ls ''token'' of
        None \<Rightarrow> (unauthenticated, ls)
      | Some tok \<Rightarrow>
          if tok = [] then (unauthenticated, ls)
          else
            (case jwt_decode tok of
               None \<Rightarrow> (unauthenticated, ls(''token'' := None))
             | Some decoded \<Rightarrow>
                 if less_than (jwt_exp decoded) currentTime
                 then (unauthenticated, ls(''token'' := None))
                 else (\<lparr>loading = False, isAuthenticated = True,
                        user = Some \<lparr>user_id = jwt_sub decoded,
                                     user_username = ls ''username''\<rparr>,
                        token = Some tok\<rparr>, ls)))"

text \<open>\<open>res.data\<close> of a successful \<open>POST /login\<close>.\<close>

record 'id login_data =
  access_token :: string
  login_user_id :: 'id
  login_username :: string

record credentials =
  cred_username :: string
  cred_password :: string

record user_data =
  reg_username :: string
  reg_email :: string
  reg_password :: string

datatype login_result = LoginSuccess | LoginFailure string

text \<open>
  \<open>login(credentials)\<close>. \<open>post\<close> is the backend behind \<open>axios.post(.../login, credentials)\<close>:
  it answers with \<open>res.data\<close> (\<open>Inr\<close>) or the call throws (\<open>Inl\<close>).
\<close>

definition login ::
  "(credentials \<Rightarrow> js_error + 'id login_data) \<Rightarrow> credentials \<Rightarrow> 'id session
     \<Rightarrow> login_result \<times> 'id session" where
  "login post creds s =
     (case post creds of
        Inr d \<Rightarrow>
          (LoginSuccess,
           (\<lparr>loading = False, isAuthenticated = True,
             user = Some \<lparr>user_id = login_user_id d, user_username = Some (login_username d)\<rparr>,
             token = Some (access_token d)\<rparr>,
            (snd s)(''token'' \<mapsto> access_token d, ''username'' \<mapsto> login_username d)))
      | Inl error \<Rightarrow>
          (LoginFailure (or_else (response_message error) ''Authentication failed''), s))"

text \<open>\<open>register(userData)\<close>; the backend answers with \<open>res.data.message\<close>.\<close>

datatype register_result = RegisterSuccess "string option" | RegisterFailure string

definition register ::
  "(user_data \<Rightarrow> js_error + string option) \<Rightarrow> user_data \<Rightarrow> 'id session
     \<Rightarrow> register_result \<times> 'id session" where
  "register post userData s =
     (case post userData of
        Inr message \<Rightarrow> (RegisterSuccess message, s)
      | Inl error \<Rightarrow>
          (RegisterFailure (or_else (response_message error) ''Registration failed''), s))"

definition logout :: "'id session \<Rightarrow> 'id session" where
  "logout s = (unauthenticated, (snd s)(''token'' := None, ''username'' := None))"

subsection \<open>Route guard (PrivateRoute)\<close>

text \<open>
  What \<open>PrivateRoute\<close> renders: the spinner while \<open>auth.loading\<close>, else the protected
  children when authenticated, else the redirect to \<open>/login\<close>.
\<close>

datatype guard_state = Loading | Authorized | Unauthorized

definition PrivateRoute :: "'id auth \<Rightarrow> guard_state" where
  "PrivateRoute a =
     (if loading a then Loading else if isAuthenticated a then Authorized else Unauthorized)"

subsection \<open>Sequences of session operations\<close>

datatype 'id session_op =
    Hydrate rat
  | Login "credentials \<Rightarrow> js_error + 'id login_data" credentials
  | Register "user_data \<Rightarrow> js_error + string option" user_data
  | Logout

fun session_step ::
  "(string \<Rightarrow> 'id jwt_payload option) \<Rightarrow> 'id session_op \<Rightarrow> 'id session \<Rightarrow> 'id session" where
  "session_step dec (Hydrate now) s = loadUser dec now (snd s)"
| "session_step dec (Login post creds) s = snd (login post creds s)"
| "session_step dec (Register post userData) s = snd (register post userData s)"
| "session_step dec Logout s = logout s"

text \<open>The states a session passes through, the starting state first.\<close>

fun session_trace ::
  "(string \<Rightarrow> 'id jwt_payload option) \<Rightarrow> 'id session \<Rightarrow> 'id session_op list \<Rightarrow> 'id session list" where
  "session_trace dec s [] = [s]"
| "session_trace dec s (op # ops) = s # session_trace dec (session_step dec op s) ops"

fun leaves_loading :: "guard_state list \<Rightarrow> nat" where
  "leaves_loading (g # h # gs) =
     (if g = Loading \<and> h \<noteq> Loading then 1 else 0) + leaves_loading (h # gs)"
| "leaves_loading gs = 0"

fun enters_loading :: "guard_state list \<Rightarrow> nat" where
  "enters_loading (g # h # gs) =
     (if g \<noteq> Loading \<and> h = Loading then 1 else 0) + enters_loading (h # gs)"
| "enters_loading gs = 0"

text \<open>
  The session invariant: an authenticated session has a token and a user, an
  unauthenticated one has neither.
\<close>

definition session_consistent :: "'id auth \<Rightarrow> bool" where
  "session_consistent a =
     (if isAuthenticated a then token a \<noteq> None \<and> user a \<noteq> None
      else token a = None \<and> user a = None)"

section \<open>Gateway (services/api.js)\<close>

text \<open>
  The object every gateway function returns: \<open>Success d\<close> is \<open>{success: true, data: d}\<close>
  (\<open>{success: true}\<close> for a delete, with \<open>d = ()\<close>) and \<open>Failure m\<close> is
  \<open>{success: false, error: m}\<close>. The argument of each function is the outcome of its axios
  call: \<open>Inr\<close> the \<open>response.data\<close>, \<open>Inl\<close> the value thrown.
\<close>

datatype 'a api_result = Success 'a | Failure string













subsection \<open>Bulk download\<close>

record 'b download_response =
  blob :: 'b
  content_disposition :: "string option"





section \<open>Entity screens\<close>

text \<open>
  A handler is modelled by the component state it leaves behind when it has run to its
  end, together with the gateway calls it made, in order. The results of those calls are
  arguments of the handler.
\<close>

record company =
  company_id :: int
  company_name :: string

record company_form =
  cf_name :: string

record product =
  product_id :: int
  product_name :: string
  product_company_id :: int
  product_image_url :: "string option"

record product_form =
  pf_name :: string
  pf_company_id :: key_field
  pf_image_url :: string

record step =
  step_id :: int
  step_name :: string
  step_product_id :: int
  step_number :: int

record step_form =
  sf_name :: string
  sf_product_id :: key_field
  sf_step_number :: field

record class_count =
  class_count_id :: int
  class_count_class :: string
  class_count_product_id :: int

record class_form =
  ccf_class :: string
  ccf_product_id :: key_field

record image =
  image_id :: int
  image_product_id :: int
  image_filename :: string
  image_access_url :: "string option"

text \<open>
  The calls a screen sends to the backend. An update or delete carries \<open>current.id\<close>,
  which is \<open>null\<close> (\<open>None\<close>) until a row has been chosen.
\<close>

datatype gateway_call =
    GetCompanies
  | CreateCompany company_form
  | UpdateCompany "int option" company_form
  | DeleteCompany "int option"
  | GetProducts
  | CreateProduct product_form
  | UpdateProduct "int option" product_form
  | DeleteProduct "int option"
  | GetSteps
  | CreateStep step_form
  | UpdateStep "int option" step_form
  | DeleteStep "int option"
  | GetClassCounts
  | CreateClassCount class_form
  | UpdateClassCount "int option" class_form
  | DeleteClassCount "int option"
  | GetCompanyImages string
  | DeleteImage int
  | PostImage string string

subsection \<open>Companies\<close>

record companies_state =
  co_companies :: "company list"
  co_loading :: bool
  co_error :: string
  co_showAddModal :: bool
  co_showEditModal :: bool
  co_showDeleteModal :: bool
  co_currentCompany :: "company option"
  co_formData :: company_form

definition fetchCompanies ::
  "company list api_result \<Rightarrow> companies_state \<Rightarrow> companies_state \<times> gateway_call list" where
  "fetchCompanies response s =
     ((case response of
         Success d \<Rightarrow> s\<lparr>co_error := [], co_companies := d, co_loading := False\<rparr>
       | Failure e \<Rightarrow> s\<lparr>co_error := ''Failed to fetch companies: '' @ e, co_loading := False\<rparr>),
      [GetCompanies])"

definition Companies_handleAdd ::
  "'a api_result \<Rightarrow> company list api_result \<Rightarrow> companies_state
     \<Rightarrow> companies_state \<times> gateway_call list" where
  "Companies_handleAdd response listed s =
     (if trim (cf_name (co_formData s)) = []
      then (s\<lparr>co_error := ''Company name is required''\<rparr>, [])
      else
        (case response of
           Success d \<Rightarrow>
             (let (s', calls) = fetchCompanies listed (s\<lparr>co_loading := True\<rparr>)
              in (s'\<lparr>co_showAddModal := False, co_formData := \<lparr>cf_name = []\<rparr>,
                     co_loading := False\<rparr>,
                  CreateCompany (co_formData s) # calls))
         | Failure e \<Rightarrow>
             (s\<lparr>co_error := ''Error adding company: '' @ e, co_loading := False\<rparr>,
              [CreateCompany (co_formData s)])))"

definition Companies_handleEdit ::
  "'a api_result \<Rightarrow> company list api_result \<Rightarrow> companies_state
     \<Rightarrow> companies_state \<times> gateway_call list" where
  "Companies_handleEdit response listed s =
     (if trim (cf_name (co_formData s)) = []
      then (s\<lparr>co_error := ''Company name is required''\<rparr>, [])
      else
        (let call = UpdateCompany (map_option company_id (co_currentCompany s)) (co_formData s)
         in case response of
              Success d \<Rightarrow>
                (let (s', calls) = fetchCompanies listed (s\<lparr>co_loading := True\<rparr>)
                 in (s'\<lparr>co_showEditModal := False, co_loading := False\<rparr>, call # calls))
            | Failure e \<Rightarrow>
                (s\<lparr>co_error := ''Error updating company: '' @ e, co_loading := False\<rparr>,
                 [call])))"

definition Companies_handleDelete ::
  "unit api_result \<Rightarrow> company list api_result \<Rightarrow> companies_state
     \<Rightarrow> companies_state \<times> gateway_call list" where
  "Companies_handleDelete response listed s =
     (let call = DeleteCompany (map_option company_id (co_currentCompany s))
      in case response of
           Success d \<Rightarrow>
             (let (s', calls) = fetchCompanies listed (s\<lparr>co_loading := True\<rparr>)
              in (s'\<lparr>co_showDeleteModal := False, co_loading := False\<rparr>, call # calls))
         | Failure e \<Rightarrow>
             (s\<lparr>co_error := ''Error deleting company: '' @ e, co_loading := False\<rparr>, [call]))"

subsection \<open>Products\<close>

record products_state =
  pr_products :: "product list"
  pr_companies :: "company list"
  pr_loading :: bool
  pr_error :: string
  pr_showAddModal :: bool
  pr_showEditModal :: bool
  pr_showDeleteModal :: bool
  pr_currentProduct :: "product option"
  pr_formData :: product_form

text \<open>\<open>fetchData\<close> asks for both collections at once (\<open>Promise.all\<close>).\<close>

definition Products_fetchData ::
  "product list api_result \<Rightarrow> company list api_result \<Rightarrow> products_state
     \<Rightarrow> products_state \<times> gateway_call list" where
  "Products_fetchData productsResponse companiesResponse s =
     (let s0 = s\<lparr>pr_loading := True, pr_error := []\<rparr>;
          s1 = (case productsResponse of
                  Success d \<Rightarrow> s0\<lparr>pr_products := d\<rparr>
                | Failure e \<Rightarrow> s0\<lparr>pr_error := ''Failed to fetch products: '' @ e\<rparr>);
          s2 = (case companiesResponse of
                  Success d \<Rightarrow> s1\<lparr>pr_companies := d\<rparr>
                | Failure e \<Rightarrow>
                    s1\<lparr>pr_error := pr_error s1 @ '' Failed to fetch companies: '' @ e\<rparr>)
      in (s2\<lparr>pr_loading := False\<rparr>, [GetProducts, GetCompanies]))"

definition Products_handleAdd ::
  "'a api_result \<Rightarrow> product list api_result \<Rightarrow> company list api_result \<Rightarrow> products_state
     \<Rightarrow> products_state \<times> gateway_call list" where
  "Products_handleAdd response productsResponse companiesResponse s =
     (if trim (pf_name (pr_formData s)) = []
      then (s\<lparr>pr_error := ''Product name is required''\<rparr>, [])
      else if \<not> truthy_key (pf_company_id (pr_formData s))
      then (s\<lparr>pr_error := ''Company is required''\<rparr>, [])
      else
        (case response of
           Success d \<Rightarrow>
             (let (s', calls) =
                    Products_fetchData productsResponse companiesResponse (s\<lparr>pr_loading := True\<rparr>)
              in (s'\<lparr>pr_showAddModal := False,
                     pr_formData := \<lparr>pf_name = [], pf_company_id = NoKey, pf_image_url = []\<rparr>,
                     pr_loading := False\<rparr>,
                  CreateProduct (pr_formData s) # calls))
         | Failure e \<Rightarrow>
             (s\<lparr>pr_error := ''Error adding product: '' @ e, pr_loading := False\<rparr>,
              [CreateProduct (pr_formData s)])))"

definition Products_handleEdit ::
  "'a api_result \<Rightarrow> product list api_result \<Rightarrow> company list api_result \<Rightarrow> products_state
     \<Rightarrow> products_state \<times> gateway_call list" where
  "Products_handleEdit response productsResponse companiesResponse s =
     (if trim (pf_name (pr_formData s)) = []
      then (s\<lparr>pr_error := ''Product name is required''\<rparr>, [])
      else if \<not> truthy_key (pf_company_id (pr_formData s))
      then (s\<lparr>pr_error := ''Company is required''\<rparr>, [])
      else
        (let call = UpdateProduct (map_option product_id (pr_currentProduct s)) (pr_formData s)
         in case response of
              Success d \<Rightarrow>
                (let (s', calls) =
                       Products_fetchData productsResponse companiesResponse
                         (s\<lparr>pr_loading := True\<rparr>)
                 in (s'\<lparr>pr_showEditModal := False, pr_loading := False\<rparr>, call # calls))
            | Failure e \<Rightarrow>
                (s\<lparr>pr_error := ''Error updating product: '' @ e, pr_loading := False\<rparr>,
                 [call])))"

definition Products_handleDelete ::
  "unit api_result \<Rightarrow> product list api_result \<Rightarrow> company list api_result \<Rightarrow> products_state
     \<Rightarrow> products_state \<times> gateway_call list" where
  "Products_handleDelete response productsResponse companiesResponse s =
     (let call = DeleteProduct (map_option product_id (pr_currentProduct s))
      in case response of
           Success d \<Rightarrow>
             (let (s', calls) =
                    Products_fetchData productsResponse companiesResponse (s\<lparr>pr_loading := True\<rparr>)
              in (s'\<lparr>pr_showDeleteModal := False, pr_loading := False\<rparr>, call # calls))
         | Failure e \<Rightarrow>
             (s\<lparr>pr_error := ''Error deleting product: '' @ e, pr_loading := False\<rparr>, [call]))"

subsection \<open>Steps\<close>

text \<open>
  \<open>getAvailableStepNumbers(productId, excludeStepId = null)\<close>. The component's \<open>steps\<close>
  state is passed explicitly. \<open>excludeStepId\<close> is \<open>None\<close> for \<open>null\<close>.
\<close>

definition getAvailableStepNumbers ::
  "step list \<Rightarrow> key_field \<Rightarrow> int option \<Rightarrow> int list" where
  "getAvailableStepNumbers steps productId excludeStepId =
     (if \<not> truthy_key productId then []
      else
        let usedStepNumbers =
              map step_number
                (filter (\<lambda>s. equals_parseInt (step_product_id s) productId
                             \<and> Some (step_id s) \<noteq> excludeStepId) steps);
            allStepNumbers = map (\<lambda>i. int i + 1) [0..<20]
        in filter (\<lambda>num. num \<notin> set usedStepNumbers) allStepNumbers)"

text \<open>
  The steps of the scenario: product 7 has steps at positions 1, 3 and 5; product 8 has
  steps at positions 2 and 4.
\<close>

definition scenario_steps :: "step list" where
  "scenario_steps =
     [\<lparr>step_id = 11, step_name = ''cut'', step_product_id = 7, step_number = 1\<rparr>,
      \<lparr>step_id = 21, step_name = ''mould'', step_product_id = 8, step_number = 2\<rparr>,
      \<lparr>step_id = 12, step_name = ''weld'', step_product_id = 7, step_number = 3\<rparr>,
      \<lparr>step_id = 22, step_name = ''trim'', step_product_id = 8, step_number = 4\<rparr>,
      \<lparr>step_id = 13, step_name = ''paint'', step_product_id = 7, step_number = 5\<rparr>]"

record steps_state =
  st_steps :: "step list"
  st_products :: "product list"
  st_loading :: bool
  st_error :: string
  st_showAddModal :: bool
  st_showEditModal :: bool
  st_showDeleteModal :: bool
  st_currentStep :: "step option"
  st_formData :: step_form

definition Steps_fetchData ::
  "step list api_result \<Rightarrow> product list api_result \<Rightarrow> steps_state
     \<Rightarrow> steps_state \<times> gateway_call list" where
  "Steps_fetchData stepsResponse productsResponse s =
     (let s0 = s\<lparr>st_loading := True, st_error := []\<rparr>;
          s1 = (case stepsResponse of
                  Success d \<Rightarrow> s0\<lparr>st_steps := d\<rparr>
                | Failure e \<Rightarrow> s0\<lparr>st_error := ''Failed to fetch steps: '' @ e\<rparr>);
          s2 = (case productsResponse of
                  Success d \<Rightarrow> s1\<lparr>st_products := d\<rparr>
                | Failure e \<Rightarrow>
                    s1\<lparr>st_error := st_error s1 @ '' Failed to fetch products: '' @ e\<rparr>)
      in (s2\<lparr>st_loading := False\<rparr>, [GetSteps, GetProducts]))"

definition Steps_handleAdd ::
  "'a api_result \<Rightarrow> step list api_result \<Rightarrow> product list api_result \<Rightarrow> steps_state
     \<Rightarrow> steps_state \<times> gateway_call list" where
  "Steps_handleAdd response stepsResponse productsResponse s =
     (if trim (sf_name (st_formData s)) = []
      then (s\<lparr>st_error := ''Step name is required''\<rparr>, [])
      else if \<not> truthy_key (sf_product_id (st_formData s))
      then (s\<lparr>st_error := ''Product is required''\<rparr>, [])
      else if \<not> truthy (sf_step_number (st_formData s))
      then (s\<lparr>st_error := ''Step number is required''\<rparr>, [])
      else
        (case response of
           Success d \<Rightarrow>
             (let (s', calls) =
                    Steps_fetchData stepsResponse productsResponse (s\<lparr>st_loading := True\<rparr>)
              in (s'\<lparr>st_showAddModal := False,
                     st_formData := \<lparr>sf_name = [], sf_product_id = NoKey,
                                     sf_step_number = Text ''1''\<rparr>,
                     st_loading := False\<rparr>,
                  CreateStep (st_formData s) # calls))
         | Failure e \<Rightarrow>
             (s\<lparr>st_error := ''Error adding step: '' @ e, st_loading := False\<rparr>,
              [CreateStep (st_formData s)])))"

definition Steps_handleEdit ::
  "'a api_result \<Rightarrow> step list api_result \<Rightarrow> product list api_result \<Rightarrow> steps_state
     \<Rightarrow> steps_state \<times> gateway_call list" where
  "Steps_handleEdit response stepsResponse productsResponse s =
     (if trim (sf_name (st_formData s)) = []
      then (s\<lparr>st_error := ''Step name is required''\<rparr>, [])
      else if \<not> truthy_key (sf_product_id (st_formData s))
      then (s\<lparr>st_error := ''Product is required''\<rparr>, [])
      else if \<not> truthy (sf_step_number (st_formData s))
      then (s\<lparr>st_error := ''Step number is required''\<rparr>, [])
      else
        (let call = UpdateStep (map_option step_id (st_currentStep s)) (st_formData s)
         in case response of
              Success d \<Rightarrow>
                (let (s', calls) =
                       Steps_fetchData stepsResponse productsResponse (s\<lparr>st_loading := True\<rparr>)
                 in (s'\<lparr>st_showEditModal := False, st_loading := False\<rparr>, call # calls))
            | Failure e \<Rightarrow>
                (s\<lparr>st_error := ''Error updating step: '' @ e, st_loading := False\<rparr>, [call])))"

definition Steps_handleDelete ::
  "unit api_result \<Rightarrow> step list api_result \<Rightarrow> product list api_result \<Rightarrow> steps_state
     \<Rightarrow> steps_state \<times> gateway_call list" where
  "Steps_handleDelete response stepsResponse productsResponse s =
     (let call = DeleteStep (map_option step_id (st_currentStep s))
      in case response of
           Success d \<Rightarrow>
             (let (s', calls) =
                    Steps_fetchData stepsResponse productsResponse (s\<lparr>st_loading := True\<rparr>)
              in (s'\<lparr>st_showDeleteModal := False, st_loading := False\<rparr>, call # calls))
         | Failure e \<Rightarrow>
             (s\<lparr>st_error := ''Error deleting step: '' @ e, st_loading := False\<rparr>, [call]))"

text \<open>
  The Add Step modal. The condition under which it shows its red note and (besides
  \<open>loading\<close>) disables its submit button is
  \<open>formData.product_id && getAvailableStepNumbers(formData.product_id).length === 0\<close>.
  A click on a disabled button runs no handler.
\<close>

definition Steps_add_blocked :: "steps_state \<Rightarrow> bool" where
  "Steps_add_blocked s =
     (truthy_key (sf_product_id (st_formData s))
      \<and> length (getAvailableStepNumbers (st_steps s) (sf_product_id (st_formData s)) None) = 0)"

definition Steps_add_note :: "steps_state \<Rightarrow> string option" where
  "Steps_add_note s =
     (if Steps_add_blocked s
      then Some ''All step positions (1-20) are taken for this product'' else None)"

definition Steps_add_disabled :: "steps_state \<Rightarrow> bool" where
  "Steps_add_disabled s = (st_loading s \<or> Steps_add_blocked s)"

definition Steps_add_click ::
  "'a api_result \<Rightarrow> step list api_result \<Rightarrow> product list api_result \<Rightarrow> steps_state
     \<Rightarrow> steps_state \<times> gateway_call list" where
  "Steps_add_click response stepsResponse productsResponse s =
     (if Steps_add_disabled s then (s, [])
      else Steps_handleAdd response stepsResponse productsResponse s)"

subsection \<open>Classes\<close>

record classcounts_state =
  cc_classCounts :: "class_count list"
  cc_products :: "product list"
  cc_loading :: bool
  cc_error :: string
  cc_showAddModal :: bool
  cc_showEditModal :: bool
  cc_showDeleteModal :: bool
  cc_currentClassCount :: "class_count option"
  cc_formData :: class_form

definition ClassCounts_fetchData ::
  "class_count list api_result \<Rightarrow> product list api_result \<Rightarrow> classcounts_state
     \<Rightarrow> classcounts_state \<times> gateway_call list" where
  "ClassCounts_fetchData classCountsResponse productsResponse s =
     (let s0 = s\<lparr>cc_loading := True, cc_error := []\<rparr>;
          s1 = (case classCountsResponse of
                  Success d \<Rightarrow> s0\<lparr>cc_classCounts := d\<rparr>
                | Failure e \<Rightarrow> s0\<lparr>cc_error := ''Failed to fetch class counts: '' @ e\<rparr>);
          s2 = (case productsResponse of
                  Success d \<Rightarrow> s1\<lparr>cc_products := d\<rparr>
                | Failure e \<Rightarrow>
                    s1\<lparr>cc_error := cc_error s1 @ '' Failed to fetch products: '' @ e\<rparr>)
      in (s2\<lparr>cc_loading := False\<rparr>, [GetClassCounts, GetProducts]))"

definition ClassCounts_handleAdd ::
  "'a api_result \<Rightarrow> class_count list api_result \<Rightarrow> product list api_result
     \<Rightarrow> classcounts_state \<Rightarrow> classcounts_state \<times> gateway_call list" where
  "ClassCounts_handleAdd response classCountsResponse productsResponse s =
     (if trim (ccf_class (cc_formData s)) = []
      then (s\<lparr>cc_error := ''Class is required''\<rparr>, [])
      else if \<not> truthy_key (ccf_product_id (cc_formData s))
      then (s\<lparr>cc_error := ''Product is required''\<rparr>, [])
      else
        (case response of
           Success d \<Rightarrow>
             (let (s', calls) =
                    ClassCounts_fetchData classCountsResponse productsResponse
                      (s\<lparr>cc_loading := True\<rparr>)
              in (s'\<lparr>cc_showAddModal := False,
                     cc_formData := \<lparr>ccf_class = [], ccf_product_id = NoKey\<rparr>,
                     cc_loading := False\<rparr>,
                  CreateClassCount (cc_formData s) # calls))
         | Failure e \<Rightarrow>
             (s\<lparr>cc_error := ''Error adding class: '' @ e, cc_loading := False\<rparr>,
              [CreateClassCount (cc_formData s)])))"

definition ClassCounts_handleEdit ::
  "'a api_result \<Rightarrow> class_count list api_result \<Rightarrow> product list api_result
     \<Rightarrow> classcounts_state \<Rightarrow> classcounts_state \<times> gateway_call list" where
  "ClassCounts_handleEdit response classCountsResponse productsResponse s =
     (if trim (ccf_class (cc_formData s)) = []
      then (s\<lparr>cc_error := ''Class is required''\<rparr>, [])
      else if \<not> truthy_key (ccf_product_id (cc_formData s))
      then (s\<lparr>cc_error := ''Product is required''\<rparr>, [])
      else
        (let call = UpdateClassCount (map_option class_count_id (cc_currentClassCount s))
                      (cc_formData s)
         in case response of
              Success d \<Rightarrow>
                (let (s', calls) =
                       ClassCounts_fetchData classCountsResponse productsResponse
                         (s\<lparr>cc_loading := True\<rparr>)
                 in (s'\<lparr>cc_showEditModal := False, cc_loading := False\<rparr>, call # calls))
            | Failure e \<Rightarrow>
                (s\<lparr>cc_error := ''Error updating class: '' @ e, cc_loading := False\<rparr>, [call])))"

definition ClassCounts_handleDelete ::
  "unit api_result \<Rightarrow> class_count list api_result \<Rightarrow> product list api_result
     \<Rightarrow> classcounts_state \<Rightarrow> classcounts_state \<times> gateway_call list" where
  "ClassCounts_handleDelete response classCountsResponse productsResponse s =
     (let call = DeleteClassCount (map_option class_count_id (cc_currentClassCount s))
      in case response of
           Success d \<Rightarrow>
             (let (s', calls) =
                    ClassCounts_fetchData classCountsResponse productsResponse
                      (s\<lparr>cc_loading := True\<rparr>)
              in (s'\<lparr>cc_showDeleteModal := False, cc_loading := False\<rparr>, call # calls))
         | Failure e \<Rightarrow>
             (s\<lparr>cc_error := ''Error deleting class: '' @ e, cc_loading := False\<rparr>, [call]))"

section \<open>Image manager\<close>

text \<open>
  The page calls axios itself. \<open>selectedCompany\<close> is the value of the company select
  (\<open>''\<close> when none is chosen).
\<close>

record images_state =
  im_images :: "image list"
  im_selectedCompany :: string
  im_message :: string

text \<open>\<open>handleDelete(id)\<close>; \<open>confirmed\<close> is the answer to \<open>window.confirm\<close>.\<close>

definition ImageManagerPage_handleDelete ::
  "bool \<Rightarrow> int \<Rightarrow> js_error + 'd \<Rightarrow> images_state \<Rightarrow> images_state \<times> gateway_call list" where
  "ImageManagerPage_handleDelete confirmed ident res s =
     (if \<not> confirmed then (s, [])
      else
        (case res of
           Inr d \<Rightarrow>
             (s\<lparr>im_images := filter (\<lambda>img. image_id img \<noteq> ident) (im_images s)\<rparr>,
              [DeleteImage ident])
         | Inl err \<Rightarrow> (s\<lparr>im_message := ''Failed to delete image.''\<rparr>, [DeleteImage ident])))"

definition refreshImages ::
  "js_error + image list \<Rightarrow> images_state \<Rightarrow> images_state \<times> gateway_call list" where
  "refreshImages res s =
     (if im_selectedCompany s = [] then (s, [])
      else
        (case res of
           Inr d \<Rightarrow> (s\<lparr>im_images := d\<rparr>, [GetCompanyImages (im_selectedCompany s)])
         | Inl err \<Rightarrow>
             (s\<lparr>im_message := ''Failed to refresh images.''\<rparr>,
              [GetCompanyImages (im_selectedCompany s)])))"

subsection \<open>Image upload (CaptureImage)\<close>

record capture_state =
  cap_imgSrc :: "string option"
  cap_productId :: string
  cap_uploading :: bool
  cap_message :: string

text \<open>
  \<open>handleUpload\<close>. \<open>res\<close> is the outcome of the \<open>try\<close> block up to and including the
  \<open>axios.post\<close>; \<open>onImageUploaded\<close> tells whether the parent passed the refresh callback.
  The second component of the result tells whether the callback was invoked.
\<close>

definition handleUpload ::
  "js_error + 'd \<Rightarrow> bool \<Rightarrow> capture_state \<Rightarrow> capture_state \<times> bool" where
  "handleUpload res onImageUploaded s =
     (if cap_imgSrc s = None \<or> cap_imgSrc s = Some [] \<or> cap_productId s = []
      then (s\<lparr>cap_message := ''Please capture an image and select a product.''\<rparr>, False)
      else if cap_uploading s then (s, False)
      else
        (case res of
           Inr d \<Rightarrow>
             (s\<lparr>cap_message := ''Image uploaded successfully!'', cap_imgSrc := None,
                cap_uploading := False\<rparr>, onImageUploaded)
         | Inl err \<Rightarrow>
             (let serverError = (case response_error err of None \<Rightarrow> [] | Some e \<Rightarrow> e)
              in if serverError \<noteq> []
                 then (s\<lparr>cap_message := ''Upload failed: '' @ serverError,
                         cap_uploading := False\<rparr>, False)
                 else if (case err_message err of
                            None \<Rightarrow> False
                          | Some m \<Rightarrow> m \<noteq> [] \<and> str_includes (toLowerCase m) ''network'')
                 then (s\<lparr>cap_message :=
                           ''Image uploaded successfully! (network error, but likely succeeded)'',
                         cap_imgSrc := None, cap_uploading := False\<rparr>, onImageUploaded)
                 else (s\<lparr>cap_message := ''Upload failed (network or unknown error).'',
                         cap_uploading := False\<rparr>, False))))"

section \<open>Project creation (ProjectCreator)\<close>

text \<open>
  \<open>createProject\<close> is an asynchronous function: it runs up to its \<open>await\<close>, and the rest
  runs when the awaited call settles. The component is a state machine whose events are
  the invocations of \<open>createProject\<close>, the settling of the calls it awaits, a change of
  the product select, and the unmounting of the component.

  The \<open>AbortController\<close> objects live in a store: controller \<open>k\<close> is the \<open>k\<close>-th one
  created, and its signal is aborted once \<open>Abort k\<close> stands in the log of effects. The
  log also holds the requests sent.
\<close>

datatype creator_effect =
    PostCreateProject nat string string
  | Abort nat
  | GetExistingProjects

text \<open>
  What an invocation still has to do: \<open>AwaitPost\<close> waits for
  \<open>api.post('/label-studio/create-project', ...)\<close>, \<open>AwaitFetch\<close> for the
  \<open>fetchProducts()\<close> of the success path.
\<close>

datatype continuation = AwaitPost | AwaitFetch

record 'p creator_state =
  pc_products :: "'p list"
  pc_selectedProduct :: string
  pc_loading :: bool
  pc_success :: string
  pc_error :: string
  isCreatingRef :: bool
  abortControllerRef :: "nat option"
  pc_controllers :: nat
  pc_effects :: "creator_effect list"
  pc_inflight :: "continuation list"

definition creator_initial :: "'p creator_state" where
  "creator_initial =
     \<lparr>pc_products = [], pc_selectedProduct = [], pc_loading = False, pc_success = [],
      pc_error = [], isCreatingRef = False, abortControllerRef = None, pc_controllers = 0,
      pc_effects = [], pc_inflight = []\<rparr>"

text \<open>
  \<open>createProject\<close> up to its first \<open>await\<close>. The function is memoised on
  \<open>selectedProduct\<close> alone, so the \<open>loading\<close> it reads is the value of the render that
  memoised it: \<open>closureLoading\<close>. \<open>requestId\<close> is the identifier it draws from the clock
  and the random generator. The request body is \<open>{product_id: parseInt(productId)}\<close>; the
  log keeps \<open>productId\<close>.
\<close>

definition createProject :: "bool \<Rightarrow> string \<Rightarrow> 'p creator_state \<Rightarrow> 'p creator_state" where
  "createProject closureLoading requestId s =
     (if pc_selectedProduct s = [] then s\<lparr>pc_error := ''Please select a product''\<rparr>
      else if closureLoading \<or> isCreatingRef s then s
      else
        (let s1 = (case abortControllerRef s of
                     None \<Rightarrow> s
                   | Some c \<Rightarrow> s\<lparr>pc_effects := pc_effects s @ [Abort c]\<rparr>);
             k = pc_controllers s1
         in s1\<lparr>abortControllerRef := Some k, pc_controllers := Suc k, isCreatingRef := True,
               pc_loading := True, pc_error := [], pc_success := [],
               pc_effects := pc_effects s1 @ [PostCreateProject k (pc_selectedProduct s) requestId],
               pc_inflight := pc_inflight s1 @ [AwaitPost]\<rparr>))"

text \<open>The \<open>finally\<close> block.\<close>

definition createProject_finally :: "'p creator_state \<Rightarrow> 'p creator_state" where
  "createProject_finally s =
     s\<lparr>pc_loading := False, isCreatingRef := False, abortControllerRef := None\<rparr>"

text \<open>
  The rest of \<open>createProject\<close> once the POST has settled: \<open>Inr title\<close> is a response
  with \<open>response.data.project.title\<close>, \<open>Inl\<close> the value thrown. The continuation reads
  \<open>abortControllerRef.current\<close> anew; on \<open>null\<close> the property access throws a
  \<open>TypeError\<close>, which the \<open>catch\<close> block reports with its fallback text.
\<close>

definition createProject_posted ::
  "js_error + string \<Rightarrow> 'p creator_state \<Rightarrow> 'p creator_state" where
  "createProject_posted res s =
     (case res of
        Inr title \<Rightarrow>
          (case abortControllerRef s of
             None \<Rightarrow> createProject_finally (s\<lparr>pc_error := ''Failed to create project''\<rparr>)
           | Some c \<Rightarrow>
               if Abort c \<notin> set (pc_effects s)
               then s\<lparr>pc_success :=
                        ''Project '' @ [CHR 0x22] @ title @ [CHR 0x22] @ '' created successfully!'',
                      pc_selectedProduct := [],
                      pc_effects := pc_effects s @ [GetExistingProjects],
                      pc_inflight := pc_inflight s @ [AwaitFetch]\<rparr>
               else createProject_finally s)
      | Inl error \<Rightarrow>
          if err_name error = Some ''AbortError'' then createProject_finally s
          else createProject_finally
                 (s\<lparr>pc_error := or_else (response_error error) ''Failed to create project''\<rparr>))"

text \<open>
  The rest once the \<open>fetchProducts()\<close> of the success path has settled; \<open>fetchProducts\<close>
  catches its own failure.
\<close>

definition createProject_fetched ::
  "js_error + 'p list \<Rightarrow> 'p creator_state \<Rightarrow> 'p creator_state" where
  "createProject_fetched res s =
     createProject_finally
       (case res of
          Inr products \<Rightarrow> s\<lparr>pc_products := products\<rparr>
        | Inl error \<Rightarrow> s\<lparr>pc_error := ''Failed to fetch products''\<rparr>)"

datatype 'p creator_event =
    Invoke bool string
  | PostSettled nat "js_error + string"
  | FetchSettled nat "js_error + 'p list"
  | SelectProduct string
  | Unmount

text \<open>Removing the \<open>i\<close>-th pending continuation.\<close>

definition remove_nth :: "nat \<Rightarrow> 'a list \<Rightarrow> 'a list" where
  "remove_nth i xs = take i xs @ drop (Suc i) xs"

text \<open>
  One event. A call can only settle for a continuation that waits for it. The product
  select is disabled while \<open>loading\<close>. Unmounting runs the cleanup effect, which aborts
  the controller the ref holds.
\<close>

fun creator_step :: "'p creator_event \<Rightarrow> 'p creator_state \<Rightarrow> 'p creator_state" where
  "creator_step (Invoke closureLoading requestId) s = createProject closureLoading requestId s"
| "creator_step (PostSettled i res) s =
     (if i < length (pc_inflight s) \<and> pc_inflight s ! i = AwaitPost
      then createProject_posted res (s\<lparr>pc_inflight := remove_nth i (pc_inflight s)\<rparr>)
      else s)"
| "creator_step (FetchSettled i res) s =
     (if i < length (pc_inflight s) \<and> pc_inflight s ! i = AwaitFetch
      then createProject_fetched res (s\<lparr>pc_inflight := remove_nth i (pc_inflight s)\<rparr>)
      else s)"
| "creator_step (SelectProduct v) s =
     (if pc_loading s then s else s\<lparr>pc_selectedProduct := v\<rparr>)"
| "creator_step Unmount s =
     (case abortControllerRef s of
        None \<Rightarrow> s
      | Some c \<Rightarrow> s\<lparr>pc_effects := pc_effects s @ [Abort c]\<rparr>)"

fun creator_run :: "'p creator_event list \<Rightarrow> 'p creator_state \<Rightarrow> 'p creator_state" where
  "creator_run [] s = s"
| "creator_run (e # es) s = creator_run es (creator_step e s)"

text \<open>The cancellations asked for, read off the log.\<close>

definition aborts :: "'p creator_state \<Rightarrow> creator_effect list" where
  "aborts s = filter (\<lambda>e. case e of Abort k \<Rightarrow> True | _ \<Rightarrow> False) (pc_effects s)"

section \<open>Concrete states of the scenarios\<close>

text \<open>Product 7 with all twenty positions taken, and the Add Step modal open on it.\<close>

definition full_steps :: "step list" where
  "full_steps =
     map (\<lambda>n. \<lparr>step_id = 100 + n, step_name = ''s'', step_product_id = 7, step_number = n\<rparr>)
       [1..20]"

definition full_state :: steps_state where
  "full_state =
     \<lparr>st_steps = full_steps, st_products = [], st_loading = False, st_error = [],
      st_showAddModal = True, st_showEditModal = False, st_showDeleteModal = False,
      st_currentStep = None,
      st_formData = \<lparr>sf_name = ''polish'', sf_product_id = Key 7, sf_step_number = Number 3\<rparr>\<rparr>"

text \<open>
  A browser that holds a token and a user name; a decoder for which every token expires
  at second 1700000000, and one that rejects every token; a backend that knows alice.
\<close>

definition stored_alice :: localStorage where
  "stored_alice = [''token'' \<mapsto> ''abc'', ''username'' \<mapsto> ''alice'']"

definition decode_expiring :: "string \<Rightarrow> int jwt_payload option" where
  "decode_expiring t = Some \<lparr>jwt_exp = Num 1700000000, jwt_sub = 1\<rparr>"

definition decode_failing :: "string \<Rightarrow> int jwt_payload option" where
  "decode_failing t = None"

definition alice :: credentials where
  "alice = \<lparr>cred_username = ''alice'', cred_password = ''secret''\<rparr>"

definition backend_alice :: "credentials \<Rightarrow> js_error + int login_data" where
  "backend_alice c =
     (if c = alice
      then Inr \<lparr>access_token = ''T'', login_user_id = 1, login_username = ''alice''\<rparr>
      else Inl \<lparr>err_name = Some ''AxiosError'',
                err_message = Some ''Request failed with status code 401'',
                err_response_data = Some \<lparr>data_message = Some ''Invalid credentials'',
                                          data_error = None\<rparr>\<rparr>)"

text \<open>The error axios raises when a request gets no response.\<close>

definition network_error :: js_error where
  "network_error = \<lparr>err_name = Some ''AxiosError'', err_message = Some ''Network Error'',
                     err_response_data = None\<rparr>"



text \<open>
  The entity screens with their Add modal open: a company form with an empty name, a
  product form without a company, a class form without a product, and variants with a
  blank name or a missing field.
\<close>

definition companies_screen :: companies_state where
  "companies_screen =
     \<lparr>co_companies = [\<lparr>company_id = 5, company_name = ''Acme''\<rparr>], co_loading = False,
      co_error = [], co_showAddModal = True, co_showEditModal = False,
      co_showDeleteModal = False,
      co_currentCompany = Some \<lparr>company_id = 5, company_name = ''Acme''\<rparr>,
      co_formData = \<lparr>cf_name = []\<rparr>\<rparr>"

definition products_screen :: products_state where
  "products_screen =
     \<lparr>pr_products = [], pr_companies = [\<lparr>company_id = 5, company_name = ''Acme''\<rparr>],
      pr_loading = False, pr_error = [], pr_showAddModal = True, pr_showEditModal = False,
      pr_showDeleteModal = False, pr_currentProduct = None,
      pr_formData = \<lparr>pf_name = ''Widget'', pf_company_id = KeyNaN, pf_image_url = []\<rparr>\<rparr>"

definition classes_screen :: classcounts_state where
  "classes_screen =
     \<lparr>cc_classCounts = [], cc_products = [], cc_loading = False, cc_error = [],
      cc_showAddModal = True, cc_showEditModal = False, cc_showDeleteModal = False,
      cc_currentClassCount = None,
      cc_formData = \<lparr>ccf_class = ''scratch'', ccf_product_id = NoKey\<rparr>\<rparr>"

definition products_blank_name :: products_state where
  "products_blank_name =
     products_screen\<lparr>pr_formData :=
       \<lparr>pf_name = ''  '', pf_company_id = Key 5, pf_image_url = []\<rparr>\<rparr>"

definition steps_blank_name :: steps_state where
  "steps_blank_name =
     full_state\<lparr>st_formData :=
       \<lparr>sf_name = [], sf_product_id = Key 7, sf_step_number = Number 3\<rparr>\<rparr>"

definition steps_no_product :: steps_state where
  "steps_no_product =
     full_state\<lparr>st_formData :=
       \<lparr>sf_name = ''polish'', sf_product_id = NoKey, sf_step_number = Text ''1''\<rparr>\<rparr>"

definition steps_no_number :: steps_state where
  "steps_no_number =
     full_state\<lparr>st_formData :=
       \<lparr>sf_name = ''polish'', sf_product_id = Key 7, sf_step_number = NaN\<rparr>\<rparr>"

definition classes_blank_name :: classcounts_state where
  "classes_blank_name =
     classes_screen\<lparr>cc_formData := \<lparr>ccf_class = ''  '', ccf_product_id = Key 7\<rparr>\<rparr>"

text \<open>
  What a collection holds after a fetch: the fetched rows when the fetch succeeded, its
  previous rows when it failed.
\<close>

definition refreshed :: "'a list api_result \<Rightarrow> 'a list \<Rightarrow> 'a list" where
  "refreshed listed old = (case listed of Success rows \<Rightarrow> rows | Failure e \<Rightarrow> old)"

text \<open>The image manager holding two images of company 5, and the screens with valid forms.\<close>

definition image1 :: image where
  "image1 = \<lparr>image_id = 1, image_product_id = 7, image_filename = ''a.jpg'',
             image_access_url = None\<rparr>"

definition image2 :: image where
  "image2 = \<lparr>image_id = 2, image_product_id = 7, image_filename = ''b.jpg'',
             image_access_url = None\<rparr>"

definition image3 :: image where
  "image3 = \<lparr>image_id = 3, image_product_id = 7, image_filename = ''c.jpg'',
             image_access_url = None\<rparr>"

definition images_page :: images_state where
  "images_page = \<lparr>im_images = [image1, image2], im_selectedCompany = ''5'', im_message = []\<rparr>"

definition companies_filled :: companies_state where
  "companies_filled = companies_screen\<lparr>co_formData := \<lparr>cf_name = ''Bolt''\<rparr>\<rparr>"

definition products_filled :: products_state where
  "products_filled =
     products_screen\<lparr>pr_formData :=
       \<lparr>pf_name = ''Widget'', pf_company_id = Key 5, pf_image_url = []\<rparr>\<rparr>"

definition classes_filled :: classcounts_state where
  "classes_filled =
     classes_screen\<lparr>cc_formData := \<lparr>ccf_class = ''scratch'', ccf_product_id = Key 7\<rparr>\<rparr>"

text \<open>
  The capture widget with an image taken and a product chosen; the error axios raises
  when the browser aborts the request, which has no response; an upload that the server
  rejected with an error text.
\<close>

definition capture_ready :: capture_state where
  "capture_ready =
     \<lparr>cap_imgSrc = Some ''data:image/jpeg;base64,AAAA'', cap_productId = ''7'',
      cap_uploading = False, cap_message = []\<rparr>"

definition aborted_error :: js_error where
  "aborted_error = \<lparr>err_name = Some ''AxiosError'', err_message = Some ''Request aborted'',
                     err_response_data = None\<rparr>"

definition upload_rejected :: js_error where
  "upload_rejected = \<lparr>err_name = Some ''AxiosError'',
       err_message = Some ''Request failed with status code 400'',
       err_response_data = Some \<lparr>data_message = None, data_error = Some ''No image provided''\<rparr>\<rparr>"

text \<open>
  The invariant of the project creator: nothing is pending and both refs are clear, or
  exactly one continuation is pending, \<open>isCreatingRef\<close> is set and the controller ref
  holds the controller of that request.
\<close>

definition single_flight :: "'p creator_state \<Rightarrow> bool" where
  "single_flight s =
     (if pc_inflight s = [] then \<not> isCreatingRef s \<and> abortControllerRef s = None
      else length (pc_inflight s) = 1 \<and> isCreatingRef s \<and> abortControllerRef s \<noteq> None)"

text \<open>A product is chosen and \<open>createProject\<close> is invoked twice before anything settles.\<close>

definition two_clicks :: "'p creator_event list" where
  "two_clicks = [SelectProduct ''7'', Invoke False ''r1'', Invoke False ''r2'']"

section \<open>Step numbers\<close>

lemma allStepNumbers_upto: "map (\<lambda>i. int i + 1) [0..<20] = [1..20]"
  by code_simp

lemma range_1_20: "{1..20::int} = set [1..20]"
  by (simp add: set_upto)

lemma upto_1_20:
  "[1..20::int] = [1, 2, 3, 4, 5, 6, 7, 8, 9, 10, 11, 12, 13, 14, 15, 16, 17, 18, 19, 20]"
  by code_simp

lemma getAvailable_filter:
  "truthy_key productId \<Longrightarrow>
   getAvailableStepNumbers steps productId ex =
     filter (\<lambda>n. \<forall>s \<in> set steps.
                equals_parseInt (step_product_id s) productId \<and> Some (step_id s) \<noteq> ex
                  \<longrightarrow> step_number s \<noteq> n) [1..20]"
  unfolding getAvailableStepNumbers_def Let_def allStepNumbers_upto
  by (auto intro!: filter_cong)

lemma getAvailable_key:
  "p \<noteq> 0 \<Longrightarrow>
   set (getAvailableStepNumbers steps (Key p) ex) =
     {n \<in> {1..20}. \<forall>x \<in> set steps.
         step_product_id x = p \<and> Some (step_id x) \<noteq> ex \<longrightarrow> step_number x \<noteq> n}"
  by (simp add: getAvailable_filter)

lemma getAvailable_falsy:
  "\<not> truthy_key productId \<Longrightarrow> getAvailableStepNumbers steps productId ex = []"
  by (simp add: getAvailableStepNumbers_def)

lemma add_blocked:
  assumes "sf_product_id (st_formData s) = Key p" and "p \<noteq> 0"
    and "\<forall>n\<in>{1..20}. \<exists>x\<in>set (st_steps s). step_product_id x = p \<and> step_number x = n"
  shows "Steps_add_blocked s"
proof -
  have "set (getAvailableStepNumbers (st_steps s) (Key p) None) = {}"
    using assms(2,3) by (auto simp: getAvailable_key)
  then show ?thesis using assms(1,2) by (simp add: Steps_add_blocked_def)
qed

lemma scenario_offered:
  "getAvailableStepNumbers scenario_steps (Key 7) None
     = [2, 4, 6, 7, 8, 9, 10, 11, 12, 13, 14, 15, 16, 17, 18, 19, 20]"
  by code_simp

text \<open>
  C4, as stated, fails on the code where it writes the offered set as
  \<open>{2,4,6,...,20}\<close>, the even numbers up to 20: with steps at positions 1, 3 and 5 the odd
  positions from 7 on are free and are offered too.
\<close>

theorem step_numbers_counterexample:
  "7 \<in> set (getAvailableStepNumbers scenario_steps (Key 7) None)
   \<and> set (getAvailableStepNumbers scenario_steps (Key 7) None)
       \<noteq> {2, 4, 6, 8, 10, 12, 14, 16, 18, 20}"
proof -
  have m: "7 \<in> set (getAvailableStepNumbers scenario_steps (Key 7) None)"
    by (simp add: scenario_offered)
  have "(7::int) \<notin> {2, 4, 6, 8, 10, 12, 14, 16, 18, 20}" by simp
  with m show ?thesis by metis
qed

text \<open>
  C4, amended. With steps of product 7 at positions 1, 3 and 5 (and steps of another
  product at other positions), the numbers offered for a new step of product 7 are 2, 4,
  6, 7, 8 and so on up to 20: every value of 1 to 20 but 1, 3 and 5. In general, for a
  chosen product \<open>p\<close>, the numbers offered are exactly the values of 1 to 20 that no step
  of product \<open>p\<close> has, where a step whose id is the excluded one (the step being edited)
  does not count and steps of other products do not count; without a chosen product
  nothing is offered. When every value of 1 to 20 is taken by a step of the chosen
  product, the Add Step modal shows its note and a click on its submit button changes
  nothing and makes no gateway call.
\<close>

theorem step_numbers_offered:
  "getAvailableStepNumbers scenario_steps (Key 7) None
     = [2, 4, 6, 7, 8, 9, 10, 11, 12, 13, 14, 15, 16, 17, 18, 19, 20]
   \<and> set (getAvailableStepNumbers scenario_steps (Key 7) None) = {1..20} - {1, 3, 5}
   \<and> (\<not> truthy_key productId \<longrightarrow>
        getAvailableStepNumbers steps productId excludeStepId = [])
   \<and> (p \<noteq> 0 \<longrightarrow>
        set (getAvailableStepNumbers steps (Key p) excludeStepId) =
          {n \<in> {1..20}. \<forall>x \<in> set steps.
              step_product_id x = p \<and> Some (step_id x) \<noteq> excludeStepId
                \<longrightarrow> step_number x \<noteq> n})
   \<and> (sf_product_id (st_formData s) = Key q \<and> q \<noteq> 0
        \<and> (\<forall>n \<in> {1..20}. \<exists>x \<in> set (st_steps s).
               step_product_id x = q \<and> step_number x = n) \<longrightarrow>
        Steps_add_note s = Some ''All step positions (1-20) are taken for this product''
        \<and> Steps_add_click response stepsResponse productsResponse s = (s, []))"
proof (intro conjI impI)
  show "getAvailableStepNumbers scenario_steps (Key 7) None
     = [2, 4, 6, 7, 8, 9, 10, 11, 12, 13, 14, 15, 16, 17, 18, 19, 20]"
    by (rule scenario_offered)
next
  show "set (getAvailableStepNumbers scenario_steps (Key 7) None) = {1..20} - {1, 3, 5}"
    unfolding scenario_offered range_1_20 upto_1_20 by auto
next
  assume "\<not> truthy_key productId"
  then show "getAvailableStepNumbers steps productId excludeStepId = []"
    by (rule getAvailable_falsy)
next
  assume "p \<noteq> 0"
  then show "set (getAvailableStepNumbers steps (Key p) excludeStepId) =
          {n \<in> {1..20}. \<forall>x \<in> set steps.
              step_product_id x = p \<and> Some (step_id x) \<noteq> excludeStepId
                \<longrightarrow> step_number x \<noteq> n}"
    by (rule getAvailable_key)
next
  assume a: "sf_product_id (st_formData s) = Key q \<and> q \<noteq> 0
        \<and> (\<forall>n \<in> {1..20}. \<exists>x \<in> set (st_steps s).
               step_product_id x = q \<and> step_number x = n)"
  then have b: "Steps_add_blocked s" using add_blocked [of s q] by blast
  show "Steps_add_note s = Some ''All step positions (1-20) are taken for this product''"
    using b by (simp add: Steps_add_note_def)
  show "Steps_add_click response stepsResponse productsResponse s = (s, [])"
    using b by (simp add: Steps_add_click_def Steps_add_disabled_def)
qed

lemma full_state_taken:
  "sf_product_id (st_formData full_state) = Key 7
   \<and> (\<forall>n \<in> {1..20}. \<exists>x \<in> set (st_steps full_state).
          step_product_id x = 7 \<and> step_number x = n)"
  by (auto simp: full_state_def full_steps_def)

theorem step_numbers_offered_witness:
  "getAvailableStepNumbers scenario_steps NoKey None = []
   \<and> set (getAvailableStepNumbers scenario_steps (Key 7) (Some 12)) =
        {2, 3, 4, 6, 7, 8, 9, 10, 11, 12, 13, 14, 15, 16, 17, 18, 19, 20}
   \<and> set (getAvailableStepNumbers scenario_steps (Key 8) None) =
        {1, 3, 5, 6, 7, 8, 9, 10, 11, 12, 13, 14, 15, 16, 17, 18, 19, 20}
   \<and> Steps_add_note full_state = Some ''All step positions (1-20) are taken for this product''
   \<and> Steps_add_click (Success ()) (Success []) (Success []) full_state = (full_state, [])"
proof -
  have f: "\<not> truthy_key NoKey" "(7::int) \<noteq> 0" "(8::int) \<noteq> 0" by simp_all
  have s: "{n \<in> {1..20}. \<forall>x \<in> set scenario_steps.
              step_product_id x = 7 \<and> Some (step_id x) \<noteq> Some 12 \<longrightarrow> step_number x \<noteq> n}
           = {2, 3, 4, 6, 7, 8, 9, 10, 11, 12, 13, 14, 15, 16, 17, 18, 19, 20}"
    unfolding range_1_20 upto_1_20 by (auto simp: scenario_steps_def)
  have t: "{n \<in> {1..20}. \<forall>x \<in> set scenario_steps.
              step_product_id x = 8 \<and> Some (step_id x) \<noteq> None \<longrightarrow> step_number x \<noteq> n}
           = {1, 3, 5, 6, 7, 8, 9, 10, 11, 12, 13, 14, 15, 16, 17, 18, 19, 20}"
    unfolding range_1_20 upto_1_20 by (auto simp: scenario_steps_def)
  note a = step_numbers_offered [where productId = NoKey and steps = scenario_steps
             and excludeStepId = "Some 12" and p = 7 and s = full_state and q = 7
             and response = "Success ()" and stepsResponse = "Success []"
             and productsResponse = "Success []"]
  note b = step_numbers_offered [where productId = NoKey and steps = scenario_steps
             and excludeStepId = None and p = 8 and s = full_state and q = 7
             and response = "Success ()" and stepsResponse = "Success []"
             and productsResponse = "Success []"]
  from a f full_state_taken have
    "set (getAvailableStepNumbers scenario_steps (Key 7) (Some 12)) =
       {n \<in> {1..20}. \<forall>x \<in> set scenario_steps.
              step_product_id x = 7 \<and> Some (step_id x) \<noteq> Some 12 \<longrightarrow> step_number x \<noteq> n}
     \<and> Steps_add_note full_state
         = Some ''All step positions (1-20) are taken for this product''
     \<and> Steps_add_click (Success ()) (Success []) (Success []) full_state = (full_state, [])"
    by blast
  moreover from b f have
    "getAvailableStepNumbers scenario_steps NoKey None = []
     \<and> set (getAvailableStepNumbers scenario_steps (Key 8) None) =
       {n \<in> {1..20}. \<forall>x \<in> set scenario_steps.
              step_product_id x = 8 \<and> Some (step_id x) \<noteq> None \<longrightarrow> step_number x \<noteq> n}"
    by blast
  ultimately show ?thesis unfolding s t by blast
qed

section \<open>Session store\<close>

text \<open>
  C1, as stated, fails on the code. A token whose expiry is exactly the current time is
  accepted (\<open>loadUser\<close> tests \<open>decoded.exp < currentTime\<close>), and when \<open>loadUser\<close> rejects a
  token, because it has expired or because it does not decode, it removes the token from
  the storage but leaves the user name there.
\<close>

theorem hydrate_counterexample:
  "isAuthenticated (fst (loadUser decode_expiring 1700000000 stored_alice)) = True
   \<and> snd (loadUser decode_expiring 1700000001 stored_alice) ''username'' = Some ''alice''
   \<and> snd (loadUser decode_failing 1700000000 stored_alice) ''username'' = Some ''alice''"
  by (simp add: loadUser_def stored_alice_def decode_expiring_def decode_failing_def)

text \<open>
  C1, amended. The current time is the number the code compares with, the value of
  \<open>Date.now() / 1000\<close>. For every persisted non-empty token: when the token fails to
  decode, or its expiry is a number strictly below the current time, \<open>loadUser\<close> leaves
  the session unauthenticated (not loading, no user, no token) and removes the token, and
  only the token, from the storage. When its expiry is a number equal to the current time
  or above it, \<open>loadUser\<close> authenticates the session with the decoded subject and the
  persisted user name, and leaves the storage as it is.
\<close>

theorem hydrate_invalid_token:
  "ls ''token'' = Some tok \<and> tok \<noteq> [] \<longrightarrow>
     (jwt_decode tok = None
        \<or> (\<exists>p e. jwt_decode tok = Some p \<and> jwt_exp p = Num e \<and> e < currentTime) \<longrightarrow>
      loadUser jwt_decode currentTime ls
        = (\<lparr>loading = False, isAuthenticated = False, user = None, token = None\<rparr>,
           ls(''token'' := None)))
     \<and> (\<forall>p e. jwt_decode tok = Some p \<and> jwt_exp p = Num e \<and> currentTime \<le> e \<longrightarrow>
          loadUser jwt_decode currentTime ls
            = (\<lparr>loading = False, isAuthenticated = True,
                user = Some \<lparr>user_id = jwt_sub p, user_username = ls ''username''\<rparr>,
                token = Some tok\<rparr>, ls))"
  by (auto simp: loadUser_def unauthenticated_def)

theorem hydrate_invalid_token_witness:
  "loadUser decode_expiring 1700000001 stored_alice
     = (\<lparr>loading = False, isAuthenticated = False, user = None, token = None\<rparr>,
        [''username'' \<mapsto> ''alice''])
   \<and> loadUser decode_failing 1700000000 stored_alice
     = (\<lparr>loading = False, isAuthenticated = False, user = None, token = None\<rparr>,
        [''username'' \<mapsto> ''alice''])
   \<and> loadUser decode_expiring 1700000000 stored_alice
     = (\<lparr>loading = False, isAuthenticated = True,
         user = Some \<lparr>user_id = 1, user_username = Some ''alice''\<rparr>,
         token = Some ''abc''\<rparr>, stored_alice)"
proof -
  have tok: "stored_alice ''token'' = Some ''abc'' \<and> ''abc'' \<noteq> []"
    by (simp add: stored_alice_def)
  have rm: "stored_alice(''token'' := None) = [''username'' \<mapsto> ''alice'']"
    by (auto simp: stored_alice_def fun_eq_iff)
  have un: "stored_alice ''username'' = Some ''alice''"
    by (simp add: stored_alice_def)
  have a: "\<exists>p e. decode_expiring ''abc'' = Some p \<and> jwt_exp p = Num e \<and> e < 1700000001"
    by (simp add: decode_expiring_def)
  have b: "decode_failing ''abc'' = None" by (simp add: decode_failing_def)
  have c: "decode_expiring ''abc'' = Some \<lparr>jwt_exp = Num 1700000000, jwt_sub = 1\<rparr>
           \<and> jwt_exp \<lparr>jwt_exp = Num 1700000000, jwt_sub = 1::int\<rparr> = Num 1700000000
           \<and> (1700000000 :: rat) \<le> 1700000000"
    by (simp add: decode_expiring_def)
  show ?thesis
    using hydrate_invalid_token [of stored_alice "''abc''" decode_expiring 1700000001]
      hydrate_invalid_token [of stored_alice "''abc''" decode_failing 1700000000]
      hydrate_invalid_token [of stored_alice "''abc''" decode_expiring 1700000000]
      tok rm un a b c
    by (simp del: fun_upd_apply)
qed

text \<open>
  C6. Against a backend that answers the credentials of alice with
  \<open>{access_token: "T", user_id: 1, username: "alice"}\<close>, \<open>login\<close> succeeds, leaves the
  session authenticated with user 1 "alice" and token "T", and stores the token and the
  user name. When the call fails, \<open>login\<close> returns the failure object with the message of
  the server's response when the response carries a non-empty one, and with
  "Authentication failed" otherwise; the session and the storage stay as they were. The
  \<open>catch\<close> block takes every thrown value, so nothing is thrown to the caller.
\<close>

theorem login_scenario:
  "(post \<lparr>cred_username = ''alice'', cred_password = ''secret''\<rparr>
      = Inr \<lparr>access_token = ''T'', login_user_id = 1, login_username = ''alice''\<rparr> \<longrightarrow>
    login post \<lparr>cred_username = ''alice'', cred_password = ''secret''\<rparr> (a, ls)
      = (LoginSuccess,
         (\<lparr>loading = False, isAuthenticated = True,
           user = Some \<lparr>user_id = 1, user_username = Some ''alice''\<rparr>,
           token = Some ''T''\<rparr>,
          ls(''token'' \<mapsto> ''T'', ''username'' \<mapsto> ''alice''))))
   \<and> (post creds = Inl error \<longrightarrow>
        login post creds s
          = (LoginFailure
               (case err_response_data error of
                  None \<Rightarrow> ''Authentication failed''
                | Some d \<Rightarrow>
                    (case data_message d of
                       None \<Rightarrow> ''Authentication failed''
                     | Some m \<Rightarrow> if m = [] then ''Authentication failed'' else m)),
             s))"
  by (auto simp: login_def or_else_def response_message_def split: option.splits)

theorem login_scenario_witness:
  "login backend_alice alice (initial_session Map.empty)
      = (LoginSuccess,
         (\<lparr>loading = False, isAuthenticated = True,
           user = Some \<lparr>user_id = 1, user_username = Some ''alice''\<rparr>,
           token = Some ''T''\<rparr>,
          [''token'' \<mapsto> ''T'', ''username'' \<mapsto> ''alice'']))
   \<and> login backend_alice \<lparr>cred_username = ''alice'', cred_password = ''guess''\<rparr>
        (initial_session Map.empty)
      = (LoginFailure ''Invalid credentials'', initial_session Map.empty)
   \<and> login (\<lambda>c. Inl network_error) alice (initial_session Map.empty)
      = (LoginFailure ''Authentication failed'', initial_session Map.empty :: int session)"
proof -
  have ok: "backend_alice \<lparr>cred_username = ''alice'', cred_password = ''secret''\<rparr>
      = Inr \<lparr>access_token = ''T'', login_user_id = 1, login_username = ''alice''\<rparr>"
    by (simp add: backend_alice_def alice_def)
  have bad: "backend_alice \<lparr>cred_username = ''alice'', cred_password = ''guess''\<rparr>
      = Inl \<lparr>err_name = Some ''AxiosError'',
                err_message = Some ''Request failed with status code 401'',
                err_response_data = Some \<lparr>data_message = Some ''Invalid credentials'',
                                          data_error = None\<rparr>\<rparr>"
    by (simp add: backend_alice_def alice_def)
  have net: "err_response_data network_error = None" by (simp add: network_error_def)
  show ?thesis
    using login_scenario [of backend_alice "initial_auth Map.empty" Map.empty]
      login_scenario [of backend_alice _ _ "\<lparr>cred_username = ''alice'', cred_password = ''guess''\<rparr>" _
         "initial_session Map.empty"]
      login_scenario [of "\<lambda>c. Inl network_error" _ _ alice network_error "initial_session Map.empty"]
      ok bad net
    by (simp add: alice_def initial_session_def)
qed

lemma step_not_loading:
  "\<not> loading (fst s) \<Longrightarrow> \<not> loading (fst (session_step dec op s))"
  by (cases op) (auto simp: loadUser_def login_def register_def logout_def unauthenticated_def
      Let_def split: option.splits sum.splits)

lemma loadUser_not_loading: "\<not> loading (fst (loadUser dec now ls))"
  by (auto simp: loadUser_def unauthenticated_def Let_def split: option.splits)

lemma trace_not_loading:
  "\<not> loading (fst s) \<Longrightarrow> \<forall>t \<in> set (session_trace dec s ops). \<not> loading (fst t)"
proof (induction ops arbitrary: s)
  case Nil
  then show ?case by simp
next
  case (Cons op ops)
  from Cons.prems have "\<not> loading (fst (session_step dec op s))" by (rule step_not_loading)
  then have "\<forall>t \<in> set (session_trace dec (session_step dec op s) ops). \<not> loading (fst t)"
    by (rule Cons.IH)
  with Cons.prems show ?case by simp
qed

lemma no_loading_no_transition:
  "Loading \<notin> set gs \<Longrightarrow> leaves_loading gs = 0 \<and> enters_loading gs = 0"
  by (induction gs rule: leaves_loading.induct) auto

lemma trace_nonempty: "session_trace dec s ops \<noteq> []"
  by (cases ops) auto

text \<open>
  C9. The guard starts in \<open>Loading\<close>; hydration takes it to \<open>Authorized\<close> or
  \<open>Unauthorized\<close>; and whatever operations follow (logins that succeed or fail,
  registrations, logouts, further expiry checks), it is never \<open>Loading\<close> again: along the
  whole session the guard leaves \<open>Loading\<close> exactly once and never enters it.
\<close>

theorem guard_leaves_loading_once:
  "(let tr = map (\<lambda>s. PrivateRoute (fst s))
               (session_trace dec (initial_session ls) (Hydrate now # ops))
    in hd tr = Loading \<and> Loading \<notin> set (tl tr)
       \<and> leaves_loading tr = 1 \<and> enters_loading tr = 0)"
proof -
  let ?s1 = "loadUser dec now ls"
  let ?rest = "map (\<lambda>s. PrivateRoute (fst s)) (session_trace dec ?s1 ops)"
  have tr: "map (\<lambda>s. PrivateRoute (fst s))
               (session_trace dec (initial_session ls) (Hydrate now # ops))
            = Loading # ?rest"
    by (simp add: initial_session_def initial_auth_def PrivateRoute_def)
  have "\<forall>t \<in> set (session_trace dec ?s1 ops). \<not> loading (fst t)"
    using loadUser_not_loading by (rule trace_not_loading)
  then have nl: "Loading \<notin> set ?rest"
    by (auto simp: PrivateRoute_def split: if_splits)
  then have z: "leaves_loading ?rest = 0 \<and> enters_loading ?rest = 0"
    by (rule no_loading_no_transition)
  obtain g gs where r: "?rest = g # gs"
    using trace_nonempty [of dec ?s1 ops] by (cases ?rest) auto
  with nl have "g \<noteq> Loading" by auto
  with z r have "leaves_loading (Loading # ?rest) = 1 \<and> enters_loading (Loading # ?rest) = 0"
    by simp
  with nl show ?thesis unfolding Let_def tr by simp
qed

lemma step_consistent:
  "loading (fst s) \<or> session_consistent (fst s) \<Longrightarrow>
   loading (fst (session_step dec op s)) \<and> session_step dec op s = s
   \<or> (\<not> loading (fst (session_step dec op s)) \<and> session_consistent (fst (session_step dec op s)))"
  by (cases op) (auto simp: loadUser_def login_def register_def logout_def unauthenticated_def
      session_consistent_def Let_def split: option.splits sum.splits)

lemma trace_consistent:
  "loading (fst s) \<or> session_consistent (fst s) \<Longrightarrow>
   \<forall>t \<in> set (session_trace dec s ops). loading (fst t) \<or> session_consistent (fst t)"
proof (induction ops arbitrary: s)
  case Nil
  then show ?case by simp
next
  case (Cons op ops)
  from step_consistent [OF Cons.prems, of dec op]
  have "loading (fst (session_step dec op s)) \<or> session_consistent (fst (session_step dec op s))"
    by auto
  then have "\<forall>t \<in> set (session_trace dec (session_step dec op s) ops).
               loading (fst t) \<or> session_consistent (fst t)"
    by (rule Cons.IH)
  with Cons.prems show ?case by simp
qed

text \<open>
  C10. In every state that a sequence of hydrations, logins, registrations and logouts
  reaches from the initial state, once \<open>loading\<close> is false, an authenticated session has a
  token and a user and an unauthenticated session has neither. The initial state itself,
  when a token is persisted, is loading, unauthenticated and yet carries the token, so
  the invariant does not hold there.
\<close>

theorem session_invariant:
  "(\<forall>t \<in> set (session_trace (dec :: string \<Rightarrow> 'id jwt_payload option)
                  (initial_session ls) ops).
       \<not> loading (fst t) \<longrightarrow> session_consistent (fst t))
   \<and> (ls ''token'' = Some tok \<and> tok \<noteq> [] \<longrightarrow>
        loading (fst (initial_session ls :: 'id session))
        \<and> \<not> isAuthenticated (fst (initial_session ls :: 'id session))
        \<and> token (fst (initial_session ls :: 'id session)) = Some tok
        \<and> \<not> session_consistent (fst (initial_session ls :: 'id session)))"
proof (intro conjI impI)
  have "loading (fst (initial_session ls :: 'id session))"
    by (simp add: initial_session_def initial_auth_def)
  then have "\<forall>t \<in> set (session_trace dec (initial_session ls) ops).
       loading (fst t) \<or> session_consistent (fst t)"
    by (intro trace_consistent) simp
  then show "\<forall>t \<in> set (session_trace dec (initial_session ls) ops).
       \<not> loading (fst t) \<longrightarrow> session_consistent (fst t)"
    by auto
qed (auto simp: initial_session_def initial_auth_def session_consistent_def)


theorem guard_leaves_loading_once_witness:
  "map (\<lambda>s. PrivateRoute (fst s))
     (session_trace decode_expiring (initial_session stored_alice)
        [Hydrate 1700000001, Login backend_alice alice, Logout])
     = [Loading, Unauthorized, Authorized, Unauthorized]
   \<and> leaves_loading [Loading, Unauthorized, Authorized, Unauthorized] = 1
   \<and> enters_loading [Loading, Unauthorized, Authorized, Unauthorized] = 0"
proof -
  have tr: "map (\<lambda>s. PrivateRoute (fst s))
     (session_trace decode_expiring (initial_session stored_alice)
        [Hydrate 1700000001, Login backend_alice alice, Logout])
     = [Loading, Unauthorized, Authorized, Unauthorized]"
    by (simp add: initial_session_def initial_auth_def stored_alice_def decode_expiring_def
        loadUser_def login_def logout_def backend_alice_def PrivateRoute_def
        unauthenticated_def)
  show ?thesis
    using guard_leaves_loading_once [of decode_expiring stored_alice 1700000001
            "[Login backend_alice alice, Logout]"]
    unfolding Let_def tr by simp
qed

theorem session_invariant_witness:
  "session_consistent
     (fst (session_step decode_expiring (Hydrate 1700000001) (initial_session stored_alice)))
   \<and> session_consistent
       (fst (session_step decode_expiring (Login backend_alice alice)
              (session_step decode_expiring (Hydrate 1700000001)
                 (initial_session stored_alice))))
   \<and> \<not> session_consistent (fst (initial_session stored_alice :: int session))"
proof -
  let ?s0 = "initial_session stored_alice :: int session"
  let ?s1 = "session_step decode_expiring (Hydrate 1700000001) ?s0"
  let ?s2 = "session_step decode_expiring (Login backend_alice alice) ?s1"
  have tr: "session_trace decode_expiring ?s0 [Hydrate 1700000001, Login backend_alice alice]
            = [?s0, ?s1, ?s2]"
    by simp
  have nl: "\<not> loading (fst ?s1) \<and> \<not> loading (fst ?s2)"
    by (simp add: initial_session_def initial_auth_def stored_alice_def decode_expiring_def
        loadUser_def login_def backend_alice_def unauthenticated_def)
  have tok: "stored_alice ''token'' = Some ''abc'' \<and> ''abc'' \<noteq> []"
    by (simp add: stored_alice_def)
  show ?thesis
    using session_invariant [of decode_expiring stored_alice
            "[Hydrate 1700000001, Login backend_alice alice]" "''abc''"] nl tok
    unfolding tr by simp
qed

section \<open>Gateway\<close>




section \<open>Validation before any gateway call\<close>

lemma companies_add_invalid:
  "trim (cf_name (co_formData c)) = [] \<Longrightarrow>
   Companies_handleAdd r1 l1 c = (c\<lparr>co_error := ''Company name is required''\<rparr>, [])"
  by (simp add: Companies_handleAdd_def)

lemma products_add_invalid:
  "trim (pf_name (pr_formData p)) = [] \<Longrightarrow>
   Products_handleAdd r2 l2 m2 p = (p\<lparr>pr_error := ''Product name is required''\<rparr>, [])"
  "trim (pf_name (pr_formData p)) \<noteq> [] \<Longrightarrow> \<not> truthy_key (pf_company_id (pr_formData p)) \<Longrightarrow>
   Products_handleAdd r2 l2 m2 p = (p\<lparr>pr_error := ''Company is required''\<rparr>, [])"
  by (simp_all add: Products_handleAdd_def)

lemma steps_add_invalid:
  "trim (sf_name (st_formData s)) = [] \<Longrightarrow>
   Steps_handleAdd r3 l3 m3 s = (s\<lparr>st_error := ''Step name is required''\<rparr>, [])"
  "trim (sf_name (st_formData s)) \<noteq> [] \<Longrightarrow> \<not> truthy_key (sf_product_id (st_formData s)) \<Longrightarrow>
   Steps_handleAdd r3 l3 m3 s = (s\<lparr>st_error := ''Product is required''\<rparr>, [])"
  "trim (sf_name (st_formData s)) \<noteq> [] \<Longrightarrow> truthy_key (sf_product_id (st_formData s)) \<Longrightarrow>
   \<not> truthy (sf_step_number (st_formData s)) \<Longrightarrow>
   Steps_handleAdd r3 l3 m3 s = (s\<lparr>st_error := ''Step number is required''\<rparr>, [])"
  by (simp_all add: Steps_handleAdd_def)

lemma classes_add_invalid:
  "trim (ccf_class (cc_formData k)) = [] \<Longrightarrow>
   ClassCounts_handleAdd r4 l4 m4 k = (k\<lparr>cc_error := ''Class is required''\<rparr>, [])"
  "trim (ccf_class (cc_formData k)) \<noteq> [] \<Longrightarrow> \<not> truthy_key (ccf_product_id (cc_formData k)) \<Longrightarrow>
   ClassCounts_handleAdd r4 l4 m4 k = (k\<lparr>cc_error := ''Product is required''\<rparr>, [])"
  by (simp_all add: ClassCounts_handleAdd_def)

lemma trim_empty: "trim [] = []"
  by (simp add: trim_def)

text \<open>
  C3. On each entity screen, \<open>handleAdd\<close> with a required field missing (a name that is
  empty after trimming; a company, product or step number field that is empty, \<open>NaN\<close>
  or 0) sets the error message of the first missing field and makes no gateway call. In
  particular, adding a company with the form \<open>{name: ""}\<close> sets "Company name is
  required" and makes zero gateway calls.
\<close>

theorem create_validation:
  "(trim (cf_name (co_formData c)) = [] \<longrightarrow>
      Companies_handleAdd (r1 :: 'a api_result) l1 c
        = (c\<lparr>co_error := ''Company name is required''\<rparr>, []))
   \<and> (trim (pf_name (pr_formData p)) = [] \<longrightarrow>
        Products_handleAdd (r2 :: 'a api_result) l2 m2 p
          = (p\<lparr>pr_error := ''Product name is required''\<rparr>, []))
   \<and> (trim (pf_name (pr_formData p)) \<noteq> [] \<and> \<not> truthy_key (pf_company_id (pr_formData p)) \<longrightarrow>
        Products_handleAdd r2 l2 m2 p = (p\<lparr>pr_error := ''Company is required''\<rparr>, []))
   \<and> (trim (sf_name (st_formData s)) = [] \<longrightarrow>
        Steps_handleAdd (r3 :: 'a api_result) l3 m3 s
          = (s\<lparr>st_error := ''Step name is required''\<rparr>, []))
   \<and> (trim (sf_name (st_formData s)) \<noteq> [] \<and> \<not> truthy_key (sf_product_id (st_formData s)) \<longrightarrow>
        Steps_handleAdd r3 l3 m3 s = (s\<lparr>st_error := ''Product is required''\<rparr>, []))
   \<and> (trim (sf_name (st_formData s)) \<noteq> [] \<and> truthy_key (sf_product_id (st_formData s))
        \<and> \<not> truthy (sf_step_number (st_formData s)) \<longrightarrow>
        Steps_handleAdd r3 l3 m3 s = (s\<lparr>st_error := ''Step number is required''\<rparr>, []))
   \<and> (trim (ccf_class (cc_formData k)) = [] \<longrightarrow>
        ClassCounts_handleAdd (r4 :: 'a api_result) l4 m4 k
          = (k\<lparr>cc_error := ''Class is required''\<rparr>, []))
   \<and> (trim (ccf_class (cc_formData k)) \<noteq> [] \<and> \<not> truthy_key (ccf_product_id (cc_formData k)) \<longrightarrow>
        ClassCounts_handleAdd r4 l4 m4 k = (k\<lparr>cc_error := ''Product is required''\<rparr>, []))
   \<and> (co_formData c = \<lparr>cf_name = []\<rparr> \<longrightarrow>
        co_error (fst (Companies_handleAdd r1 l1 c)) = ''Company name is required''
        \<and> length (snd (Companies_handleAdd r1 l1 c)) = 0)"
proof (intro conjI impI)
  assume "co_formData c = \<lparr>cf_name = []\<rparr>"
  then have "trim (cf_name (co_formData c)) = []" by (simp add: trim_empty)
  then have e: "Companies_handleAdd r1 l1 c = (c\<lparr>co_error := ''Company name is required''\<rparr>, [])"
    by (rule companies_add_invalid)
  show "co_error (fst (Companies_handleAdd r1 l1 c)) = ''Company name is required''"
    unfolding e by simp
  show "length (snd (Companies_handleAdd r1 l1 c)) = 0"
    unfolding e by simp
qed (simp_all add: companies_add_invalid products_add_invalid steps_add_invalid
      classes_add_invalid)


lemma trims:
  "trim ''  '' = []" "trim ''Widget'' \<noteq> []" "trim ''polish'' \<noteq> []" "trim ''scratch'' \<noteq> []"
  "trim ''Bolt'' \<noteq> []"
  by code_simp+

theorem create_validation_witness:
  "Companies_handleAdd (Success ()) (Success []) companies_screen
     = (companies_screen\<lparr>co_error := ''Company name is required''\<rparr>, [])
   \<and> Products_handleAdd (Success ()) (Success []) (Success []) products_blank_name
     = (products_blank_name\<lparr>pr_error := ''Product name is required''\<rparr>, [])
   \<and> Products_handleAdd (Success ()) (Success []) (Success []) products_screen
     = (products_screen\<lparr>pr_error := ''Company is required''\<rparr>, [])
   \<and> Steps_handleAdd (Success ()) (Success []) (Success []) steps_blank_name
     = (steps_blank_name\<lparr>st_error := ''Step name is required''\<rparr>, [])
   \<and> Steps_handleAdd (Success ()) (Success []) (Success []) steps_no_product
     = (steps_no_product\<lparr>st_error := ''Product is required''\<rparr>, [])
   \<and> Steps_handleAdd (Success ()) (Success []) (Success []) steps_no_number
     = (steps_no_number\<lparr>st_error := ''Step number is required''\<rparr>, [])
   \<and> ClassCounts_handleAdd (Success ()) (Success []) (Success []) classes_blank_name
     = (classes_blank_name\<lparr>cc_error := ''Class is required''\<rparr>, [])
   \<and> ClassCounts_handleAdd (Success ()) (Success []) (Success []) classes_screen
     = (classes_screen\<lparr>cc_error := ''Product is required''\<rparr>, [])
   \<and> co_error (fst (Companies_handleAdd (Success ()) (Success []) companies_screen))
       = ''Company name is required''
   \<and> length (snd (Companies_handleAdd (Success ()) (Success []) companies_screen)) = 0"
proof -
  note a = create_validation [where 'a = unit, of companies_screen "Success ()" "Success []"
             products_blank_name "Success ()" "Success []" "Success []"
             steps_blank_name "Success ()" "Success []" "Success []"
             classes_blank_name "Success ()" "Success []" "Success []"]
  note b = create_validation [where 'a = unit, of companies_screen "Success ()" "Success []"
             products_screen "Success ()" "Success []" "Success []"
             steps_no_product "Success ()" "Success []" "Success []"
             classes_screen "Success ()" "Success []" "Success []"]
  note c = create_validation [where 'a = unit, of companies_screen "Success ()" "Success []"
             products_screen "Success ()" "Success []" "Success []"
             steps_no_number "Success ()" "Success []" "Success []"
             classes_screen "Success ()" "Success []" "Success []"]
  have h1: "co_formData companies_screen = \<lparr>cf_name = []\<rparr>"
    "trim (cf_name (co_formData companies_screen)) = []"
    by (simp_all add: companies_screen_def trim_empty)
  have h2: "trim (pf_name (pr_formData products_blank_name)) = []"
    by (simp add: products_blank_name_def trims)
  have h3: "trim (pf_name (pr_formData products_screen)) \<noteq> []
            \<and> \<not> truthy_key (pf_company_id (pr_formData products_screen))"
    by (simp add: products_screen_def trims)
  have h4: "trim (sf_name (st_formData steps_blank_name)) = []"
    by (simp add: steps_blank_name_def trim_empty)
  have h5: "trim (sf_name (st_formData steps_no_product)) \<noteq> []
            \<and> \<not> truthy_key (sf_product_id (st_formData steps_no_product))"
    by (simp add: steps_no_product_def trims)
  have h6: "trim (sf_name (st_formData steps_no_number)) \<noteq> []
            \<and> truthy_key (sf_product_id (st_formData steps_no_number))
            \<and> \<not> truthy (sf_step_number (st_formData steps_no_number))"
    by (simp add: steps_no_number_def trims)
  have h7: "trim (ccf_class (cc_formData classes_blank_name)) = []"
    by (simp add: classes_blank_name_def trims)
  have h8: "trim (ccf_class (cc_formData classes_screen)) \<noteq> []
            \<and> \<not> truthy_key (ccf_product_id (cc_formData classes_screen))"
    by (simp add: classes_screen_def trims)
  from a h1 h2 h4 h7 b h3 h5 h8 c h6 show ?thesis by blast
qed

section \<open>Refresh after write\<close>

lemma companies_fetch:
  "snd (fetchCompanies listed c) = [GetCompanies]
   \<and> co_companies (fst (fetchCompanies listed c)) = refreshed listed (co_companies c)"
  by (simp add: fetchCompanies_def refreshed_def split: api_result.splits)

lemma companies_add_refresh:
  "trim (cf_name (co_formData c)) \<noteq> [] \<Longrightarrow>
   snd (Companies_handleAdd (Success d) listed c) = [CreateCompany (co_formData c), GetCompanies]
   \<and> co_companies (fst (Companies_handleAdd (Success d) listed c))
       = refreshed listed (co_companies c)"
  by (simp add: Companies_handleAdd_def fetchCompanies_def refreshed_def split: api_result.splits)

lemma companies_edit_refresh:
  "trim (cf_name (co_formData c)) \<noteq> [] \<Longrightarrow>
   snd (Companies_handleEdit (Success d) listed c)
     = [UpdateCompany (map_option company_id (co_currentCompany c)) (co_formData c), GetCompanies]
   \<and> co_companies (fst (Companies_handleEdit (Success d) listed c))
       = refreshed listed (co_companies c)"
  by (simp add: Companies_handleEdit_def fetchCompanies_def refreshed_def Let_def
      split: api_result.splits)

lemma companies_delete_refresh:
  "snd (Companies_handleDelete (Success ()) listed c)
     = [DeleteCompany (map_option company_id (co_currentCompany c)), GetCompanies]
   \<and> co_companies (fst (Companies_handleDelete (Success ()) listed c))
       = refreshed listed (co_companies c)"
  by (simp add: Companies_handleDelete_def fetchCompanies_def refreshed_def Let_def
      split: api_result.splits)

lemma products_fetch:
  "snd (Products_fetchData listed m p) = [GetProducts, GetCompanies]
   \<and> pr_products (fst (Products_fetchData listed m p)) = refreshed listed (pr_products p)"
  by (simp add: Products_fetchData_def refreshed_def Let_def split: api_result.splits)

lemma products_add_refresh:
  "trim (pf_name (pr_formData p)) \<noteq> [] \<Longrightarrow> truthy_key (pf_company_id (pr_formData p)) \<Longrightarrow>
   snd (Products_handleAdd (Success d) listed m p)
     = [CreateProduct (pr_formData p), GetProducts, GetCompanies]
   \<and> pr_products (fst (Products_handleAdd (Success d) listed m p))
       = refreshed listed (pr_products p)"
  by (simp add: Products_handleAdd_def Products_fetchData_def refreshed_def Let_def
      split: api_result.splits)

lemma products_edit_refresh:
  "trim (pf_name (pr_formData p)) \<noteq> [] \<Longrightarrow> truthy_key (pf_company_id (pr_formData p)) \<Longrightarrow>
   snd (Products_handleEdit (Success d) listed m p)
     = [UpdateProduct (map_option product_id (pr_currentProduct p)) (pr_formData p),
        GetProducts, GetCompanies]
   \<and> pr_products (fst (Products_handleEdit (Success d) listed m p))
       = refreshed listed (pr_products p)"
  by (simp add: Products_handleEdit_def Products_fetchData_def refreshed_def Let_def
      split: api_result.splits)

lemma products_delete_refresh:
  "snd (Products_handleDelete (Success ()) listed m p)
     = [DeleteProduct (map_option product_id (pr_currentProduct p)), GetProducts, GetCompanies]
   \<and> pr_products (fst (Products_handleDelete (Success ()) listed m p))
       = refreshed listed (pr_products p)"
  by (simp add: Products_handleDelete_def Products_fetchData_def refreshed_def Let_def
      split: api_result.splits)


lemma steps_fetch:
  "snd (Steps_fetchData listed m s) = [GetSteps, GetProducts]
   \<and> st_steps (fst (Steps_fetchData listed m s)) = refreshed listed (st_steps s)"
  by (simp add: Steps_fetchData_def refreshed_def Let_def split: api_result.splits)

lemma steps_add_refresh:
  "trim (sf_name (st_formData s)) \<noteq> [] \<Longrightarrow> truthy_key (sf_product_id (st_formData s)) \<Longrightarrow>
   truthy (sf_step_number (st_formData s)) \<Longrightarrow>
   snd (Steps_handleAdd (Success d) listed m s) = [CreateStep (st_formData s), GetSteps, GetProducts]
   \<and> st_steps (fst (Steps_handleAdd (Success d) listed m s)) = refreshed listed (st_steps s)"
  by (simp add: Steps_handleAdd_def Steps_fetchData_def refreshed_def Let_def
      split: api_result.splits)

lemma steps_edit_refresh:
  "trim (sf_name (st_formData s)) \<noteq> [] \<Longrightarrow> truthy_key (sf_product_id (st_formData s)) \<Longrightarrow>
   truthy (sf_step_number (st_formData s)) \<Longrightarrow>
   snd (Steps_handleEdit (Success d) listed m s)
     = [UpdateStep (map_option step_id (st_currentStep s)) (st_formData s), GetSteps, GetProducts]
   \<and> st_steps (fst (Steps_handleEdit (Success d) listed m s)) = refreshed listed (st_steps s)"
  by (simp add: Steps_handleEdit_def Steps_fetchData_def refreshed_def Let_def
      split: api_result.splits)

lemma steps_delete_refresh:
  "snd (Steps_handleDelete (Success ()) listed m s)
     = [DeleteStep (map_option step_id (st_currentStep s)), GetSteps, GetProducts]
   \<and> st_steps (fst (Steps_handleDelete (Success ()) listed m s)) = refreshed listed (st_steps s)"
  by (simp add: Steps_handleDelete_def Steps_fetchData_def refreshed_def Let_def
      split: api_result.splits)

lemma classes_fetch:
  "snd (ClassCounts_fetchData listed m k) = [GetClassCounts, GetProducts]
   \<and> cc_classCounts (fst (ClassCounts_fetchData listed m k))
       = refreshed listed (cc_classCounts k)"
  by (simp add: ClassCounts_fetchData_def refreshed_def Let_def split: api_result.splits)

lemma classes_add_refresh:
  "trim (ccf_class (cc_formData k)) \<noteq> [] \<Longrightarrow> truthy_key (ccf_product_id (cc_formData k)) \<Longrightarrow>
   snd (ClassCounts_handleAdd (Success d) listed m k)
     = [CreateClassCount (cc_formData k), GetClassCounts, GetProducts]
   \<and> cc_classCounts (fst (ClassCounts_handleAdd (Success d) listed m k))
       = refreshed listed (cc_classCounts k)"
  by (simp add: ClassCounts_handleAdd_def ClassCounts_fetchData_def refreshed_def Let_def
      split: api_result.splits)

lemma classes_edit_refresh:
  "trim (ccf_class (cc_formData k)) \<noteq> [] \<Longrightarrow> truthy_key (ccf_product_id (cc_formData k)) \<Longrightarrow>
   snd (ClassCounts_handleEdit (Success d) listed m k)
     = [UpdateClassCount (map_option class_count_id (cc_currentClassCount k)) (cc_formData k),
        GetClassCounts, GetProducts]
   \<and> cc_classCounts (fst (ClassCounts_handleEdit (Success d) listed m k))
       = refreshed listed (cc_classCounts k)"
  by (simp add: ClassCounts_handleEdit_def ClassCounts_fetchData_def refreshed_def Let_def
      split: api_result.splits)

lemma classes_delete_refresh:
  "snd (ClassCounts_handleDelete (Success ()) listed m k)
     = [DeleteClassCount (map_option class_count_id (cc_currentClassCount k)),
        GetClassCounts, GetProducts]
   \<and> cc_classCounts (fst (ClassCounts_handleDelete (Success ()) listed m k))
       = refreshed listed (cc_classCounts k)"
  by (simp add: ClassCounts_handleDelete_def ClassCounts_fetchData_def refreshed_def Let_def
      split: api_result.splits)

lemma image_delete_patch:
  "ImageManagerPage_handleDelete True i (Inr d) g
     = (g\<lparr>im_images := filter (\<lambda>img. image_id img \<noteq> i) (im_images g)\<rparr>, [DeleteImage i])"
  by (simp add: ImageManagerPage_handleDelete_def)

text \<open>
  C2, as stated, fails on the code: the image manager does not fetch after a delete. It
  filters the deleted id out of the list it holds and makes no other call. With a local
  list of images 1 and 2 and a server that also holds image 3, deleting image 1 leaves
  the local list at image 2 alone, while a fetch returns images 2 and 3.
\<close>

theorem image_delete_counterexample:
  "ImageManagerPage_handleDelete True 1 (Inr ()) images_page
     = (images_page\<lparr>im_images := [image2]\<rparr>, [DeleteImage 1])
   \<and> im_images (fst (refreshImages (Inr [image2, image3])
                      (fst (ImageManagerPage_handleDelete True 1 (Inr ()) images_page))))
       = [image2, image3]
   \<and> [image2] \<noteq> [image2, image3]"
  by (simp add: ImageManagerPage_handleDelete_def refreshImages_def images_page_def
      image1_def image2_def)


text \<open>
  C2, amended. On the Companies, Products, Steps and Classes screens, a successful
  create, update or delete is followed by a full fetch of the collection (the calls made
  are the write and then the fetch), and the local collection then is \<open>refreshed\<close>: the
  fetched rows when the fetch succeeds, whatever the collection held before, and the
  previous rows when the fetch fails. This is also what a fetch on its own (\<open>list()\<close>)
  leaves in the collection. The Image Manager is the exception: a successful delete
  filters the deleted id out of the local list and makes no fetch; only its separate
  \<open>refreshImages\<close> replaces the list by the server's rows.
\<close>

theorem refresh_after_write:
  "(trim (cf_name (co_formData c)) \<noteq> [] \<longrightarrow>
      snd (Companies_handleAdd (Success (d :: 'a)) listed1 c)
        = [CreateCompany (co_formData c), GetCompanies]
      \<and> co_companies (fst (Companies_handleAdd (Success d) listed1 c))
          = refreshed listed1 (co_companies c)
      \<and> snd (Companies_handleEdit (Success d) listed1 c)
          = [UpdateCompany (map_option company_id (co_currentCompany c)) (co_formData c),
             GetCompanies]
      \<and> co_companies (fst (Companies_handleEdit (Success d) listed1 c))
          = refreshed listed1 (co_companies c))
   \<and> snd (Companies_handleDelete (Success ()) listed1 c)
       = [DeleteCompany (map_option company_id (co_currentCompany c)), GetCompanies]
   \<and> co_companies (fst (Companies_handleDelete (Success ()) listed1 c))
       = refreshed listed1 (co_companies c)
   \<and> co_companies (fst (fetchCompanies listed1 c)) = refreshed listed1 (co_companies c)
   \<and> (trim (pf_name (pr_formData p)) \<noteq> [] \<and> truthy_key (pf_company_id (pr_formData p)) \<longrightarrow>
        snd (Products_handleAdd (Success d) listed2 m2 p)
          = [CreateProduct (pr_formData p), GetProducts, GetCompanies]
        \<and> pr_products (fst (Products_handleAdd (Success d) listed2 m2 p))
            = refreshed listed2 (pr_products p)
        \<and> snd (Products_handleEdit (Success d) listed2 m2 p)
            = [UpdateProduct (map_option product_id (pr_currentProduct p)) (pr_formData p),
               GetProducts, GetCompanies]
        \<and> pr_products (fst (Products_handleEdit (Success d) listed2 m2 p))
            = refreshed listed2 (pr_products p))
   \<and> snd (Products_handleDelete (Success ()) listed2 m2 p)
       = [DeleteProduct (map_option product_id (pr_currentProduct p)), GetProducts, GetCompanies]
   \<and> pr_products (fst (Products_handleDelete (Success ()) listed2 m2 p))
       = refreshed listed2 (pr_products p)
   \<and> pr_products (fst (Products_fetchData listed2 m2 p)) = refreshed listed2 (pr_products p)
   \<and> (trim (sf_name (st_formData s)) \<noteq> [] \<and> truthy_key (sf_product_id (st_formData s))
        \<and> truthy (sf_step_number (st_formData s)) \<longrightarrow>
        snd (Steps_handleAdd (Success d) listed3 m3 s)
          = [CreateStep (st_formData s), GetSteps, GetProducts]
        \<and> st_steps (fst (Steps_handleAdd (Success d) listed3 m3 s))
            = refreshed listed3 (st_steps s)
        \<and> snd (Steps_handleEdit (Success d) listed3 m3 s)
            = [UpdateStep (map_option step_id (st_currentStep s)) (st_formData s),
               GetSteps, GetProducts]
        \<and> st_steps (fst (Steps_handleEdit (Success d) listed3 m3 s))
            = refreshed listed3 (st_steps s))
   \<and> snd (Steps_handleDelete (Success ()) listed3 m3 s)
       = [DeleteStep (map_option step_id (st_currentStep s)), GetSteps, GetProducts]
   \<and> st_steps (fst (Steps_handleDelete (Success ()) listed3 m3 s))
       = refreshed listed3 (st_steps s)
   \<and> st_steps (fst (Steps_fetchData listed3 m3 s)) = refreshed listed3 (st_steps s)
   \<and> (trim (ccf_class (cc_formData k)) \<noteq> [] \<and> truthy_key (ccf_product_id (cc_formData k)) \<longrightarrow>
        snd (ClassCounts_handleAdd (Success d) listed4 m4 k)
          = [CreateClassCount (cc_formData k), GetClassCounts, GetProducts]
        \<and> cc_classCounts (fst (ClassCounts_handleAdd (Success d) listed4 m4 k))
            = refreshed listed4 (cc_classCounts k)
        \<and> snd (ClassCounts_handleEdit (Success d) listed4 m4 k)
            = [UpdateClassCount (map_option class_count_id (cc_currentClassCount k))
                 (cc_formData k), GetClassCounts, GetProducts]
        \<and> cc_classCounts (fst (ClassCounts_handleEdit (Success d) listed4 m4 k))
            = refreshed listed4 (cc_classCounts k))
   \<and> snd (ClassCounts_handleDelete (Success ()) listed4 m4 k)
       = [DeleteClassCount (map_option class_count_id (cc_currentClassCount k)),
          GetClassCounts, GetProducts]
   \<and> cc_classCounts (fst (ClassCounts_handleDelete (Success ()) listed4 m4 k))
       = refreshed listed4 (cc_classCounts k)
   \<and> cc_classCounts (fst (ClassCounts_fetchData listed4 m4 k))
       = refreshed listed4 (cc_classCounts k)
   \<and> ImageManagerPage_handleDelete True i (Inr (d :: 'a)) g
       = (g\<lparr>im_images := filter (\<lambda>img. image_id img \<noteq> i) (im_images g)\<rparr>, [DeleteImage i])
   \<and> (im_selectedCompany g \<noteq> [] \<longrightarrow>
        im_images (fst (refreshImages (Inr rows) g)) = rows)"
proof -
  have "trim (cf_name (co_formData c)) \<noteq> [] \<longrightarrow>
      snd (Companies_handleAdd (Success (d :: 'a)) listed1 c)
        = [CreateCompany (co_formData c), GetCompanies]
      \<and> co_companies (fst (Companies_handleAdd (Success d) listed1 c))
          = refreshed listed1 (co_companies c)
      \<and> snd (Companies_handleEdit (Success d) listed1 c)
          = [UpdateCompany (map_option company_id (co_currentCompany c)) (co_formData c),
             GetCompanies]
      \<and> co_companies (fst (Companies_handleEdit (Success d) listed1 c))
          = refreshed listed1 (co_companies c)"
    using companies_add_refresh [of c d listed1] companies_edit_refresh [of c d listed1]
    by blast
  moreover have "trim (pf_name (pr_formData p)) \<noteq> [] \<and> truthy_key (pf_company_id (pr_formData p)) \<longrightarrow>
        snd (Products_handleAdd (Success d) listed2 m2 p)
          = [CreateProduct (pr_formData p), GetProducts, GetCompanies]
        \<and> pr_products (fst (Products_handleAdd (Success d) listed2 m2 p))
            = refreshed listed2 (pr_products p)
        \<and> snd (Products_handleEdit (Success d) listed2 m2 p)
            = [UpdateProduct (map_option product_id (pr_currentProduct p)) (pr_formData p),
               GetProducts, GetCompanies]
        \<and> pr_products (fst (Products_handleEdit (Success d) listed2 m2 p))
            = refreshed listed2 (pr_products p)"
    using products_add_refresh [of p d listed2 m2] products_edit_refresh [of p d listed2 m2]
    by blast
  moreover have "trim (sf_name (st_formData s)) \<noteq> [] \<and> truthy_key (sf_product_id (st_formData s))
        \<and> truthy (sf_step_number (st_formData s)) \<longrightarrow>
        snd (Steps_handleAdd (Success d) listed3 m3 s)
          = [CreateStep (st_formData s), GetSteps, GetProducts]
        \<and> st_steps (fst (Steps_handleAdd (Success d) listed3 m3 s))
            = refreshed listed3 (st_steps s)
        \<and> snd (Steps_handleEdit (Success d) listed3 m3 s)
            = [UpdateStep (map_option step_id (st_currentStep s)) (st_formData s),
               GetSteps, GetProducts]
        \<and> st_steps (fst (Steps_handleEdit (Success d) listed3 m3 s))
            = refreshed listed3 (st_steps s)"
    using steps_add_refresh [of s d listed3 m3] steps_edit_refresh [of s d listed3 m3]
    by blast
  moreover have "trim (ccf_class (cc_formData k)) \<noteq> [] \<and> truthy_key (ccf_product_id (cc_formData k)) \<longrightarrow>
        snd (ClassCounts_handleAdd (Success d) listed4 m4 k)
          = [CreateClassCount (cc_formData k), GetClassCounts, GetProducts]
        \<and> cc_classCounts (fst (ClassCounts_handleAdd (Success d) listed4 m4 k))
            = refreshed listed4 (cc_classCounts k)
        \<and> snd (ClassCounts_handleEdit (Success d) listed4 m4 k)
            = [UpdateClassCount (map_option class_count_id (cc_currentClassCount k))
                 (cc_formData k), GetClassCounts, GetProducts]
        \<and> cc_classCounts (fst (ClassCounts_handleEdit (Success d) listed4 m4 k))
            = refreshed listed4 (cc_classCounts k)"
    using classes_add_refresh [of k d listed4 m4] classes_edit_refresh [of k d listed4 m4]
    by blast
  moreover have
    "im_selectedCompany g \<noteq> [] \<longrightarrow> im_images (fst (refreshImages (Inr rows) g)) = rows"
    by (simp add: refreshImages_def)
  ultimately show ?thesis
    using companies_delete_refresh [of listed1 c] companies_fetch [of listed1 c]
      products_delete_refresh [of listed2 m2 p] products_fetch [of listed2 m2 p]
      steps_delete_refresh [of listed3 m3 s] steps_fetch [of listed3 m3 s]
      classes_delete_refresh [of listed4 m4 k] classes_fetch [of listed4 m4 k]
      image_delete_patch [of i d g]
    by blast
qed


theorem refresh_after_write_witness:
  "co_companies (fst (Companies_handleAdd (Success ())
       (Success [\<lparr>company_id = 5, company_name = ''Acme''\<rparr>,
                 \<lparr>company_id = 6, company_name = ''Bolt''\<rparr>]) companies_filled))
     = [\<lparr>company_id = 5, company_name = ''Acme''\<rparr>, \<lparr>company_id = 6, company_name = ''Bolt''\<rparr>]
   \<and> snd (Companies_handleAdd (Success ())
       (Success [\<lparr>company_id = 5, company_name = ''Acme''\<rparr>,
                 \<lparr>company_id = 6, company_name = ''Bolt''\<rparr>]) companies_filled)
     = [CreateCompany \<lparr>cf_name = ''Bolt''\<rparr>, GetCompanies]
   \<and> pr_products (fst (Products_handleAdd (Success ()) (Failure ''Network Error'') (Success [])
         products_filled)) = []
   \<and> st_steps (fst (Steps_handleEdit (Success ()) (Success scenario_steps) (Success [])
         full_state)) = scenario_steps
   \<and> cc_classCounts (fst (ClassCounts_handleAdd (Success ()) (Success []) (Success [])
         classes_filled)) = []
   \<and> im_images (fst (refreshImages (Inr [image2, image3]) images_page)) = [image2, image3]"
proof -
  note a = refresh_after_write [where 'a = unit and c = companies_filled and d = "()"
      and ?listed1.0 = "Success [\<lparr>company_id = 5, company_name = ''Acme''\<rparr>,
                           \<lparr>company_id = 6, company_name = ''Bolt''\<rparr>]"
      and p = products_filled and ?listed2.0 = "Failure ''Network Error''"
      and ?m2.0 = "Success []"
      and s = full_state and ?listed3.0 = "Success scenario_steps" and ?m3.0 = "Success []"
      and k = classes_filled and ?listed4.0 = "Success []" and ?m4.0 = "Success []"
      and g = images_page and i = 1 and rows = "[image2, image3]"]
  have h1: "trim (cf_name (co_formData companies_filled)) \<noteq> []"
    "co_formData companies_filled = \<lparr>cf_name = ''Bolt''\<rparr>"
    by (simp_all add: companies_filled_def trims)
  have h2: "trim (pf_name (pr_formData products_filled)) \<noteq> []
            \<and> truthy_key (pf_company_id (pr_formData products_filled))"
    "pr_products products_filled = []"
    by (simp_all add: products_filled_def products_screen_def trims)
  have h3: "trim (sf_name (st_formData full_state)) \<noteq> []
            \<and> truthy_key (sf_product_id (st_formData full_state))
            \<and> truthy (sf_step_number (st_formData full_state))"
    by (simp add: full_state_def trims)
  have h4: "trim (ccf_class (cc_formData classes_filled)) \<noteq> []
            \<and> truthy_key (ccf_product_id (cc_formData classes_filled))"
    by (simp add: classes_filled_def trims)
  have h5: "im_selectedCompany images_page \<noteq> []" by (simp add: images_page_def)
  from a h1(1) h2(1) h3 h4 h5 have
    "co_companies (fst (Companies_handleAdd (Success ())
       (Success [\<lparr>company_id = 5, company_name = ''Acme''\<rparr>,
                 \<lparr>company_id = 6, company_name = ''Bolt''\<rparr>]) companies_filled))
       = refreshed (Success [\<lparr>company_id = 5, company_name = ''Acme''\<rparr>,
                 \<lparr>company_id = 6, company_name = ''Bolt''\<rparr>]) (co_companies companies_filled)
     \<and> snd (Companies_handleAdd (Success ())
       (Success [\<lparr>company_id = 5, company_name = ''Acme''\<rparr>,
                 \<lparr>company_id = 6, company_name = ''Bolt''\<rparr>]) companies_filled)
       = [CreateCompany (co_formData companies_filled), GetCompanies]
     \<and> pr_products (fst (Products_handleAdd (Success ()) (Failure ''Network Error'') (Success [])
         products_filled)) = refreshed (Failure ''Network Error'') (pr_products products_filled)
     \<and> st_steps (fst (Steps_handleEdit (Success ()) (Success scenario_steps) (Success [])
         full_state)) = refreshed (Success scenario_steps) (st_steps full_state)
     \<and> cc_classCounts (fst (ClassCounts_handleAdd (Success ()) (Success []) (Success [])
         classes_filled)) = refreshed (Success []) (cc_classCounts classes_filled)
     \<and> im_images (fst (refreshImages (Inr [image2, image3]) images_page)) = [image2, image3]"
    by blast
  then show ?thesis
    by (simp add: refreshed_def h1(2) h2(2))
qed

section \<open>Image upload\<close>

text \<open>
  C8, as stated, fails on the code: a failure without any response from the server is
  treated as a success only when the text of the error mentions "network". When the
  browser aborts the request, axios raises "Request aborted", again without a response,
  and the upload is reported as failed: the image stays captured and the refresh callback
  is not invoked.
\<close>

theorem upload_aborted_counterexample:
  "err_response_data aborted_error = None
   \<and> handleUpload (Inl aborted_error :: js_error + unit) True capture_ready
       = (capture_ready\<lparr>cap_message := ''Upload failed (network or unknown error).'',
                        cap_uploading := False\<rparr>, False)"
  by (simp add: handleUpload_def capture_ready_def aborted_error_def response_error_def
      toLowerCase_def lower_char_def)

text \<open>
  C8, amended. For an upload that was started (an image is captured, a product is
  chosen, no upload is running) and whose \<open>try\<close> block threw: when the response of the
  server carries a non-empty \<open>error\<close> text, the upload is reported as failed with that
  text; otherwise, when the message of the thrown value contains "network" in any letter
  case, the upload is treated as a success with a warning (the success message is shown,
  the captured image is cleared, the refresh callback is invoked when there is one); in
  every other case the upload is reported as failed with "Upload failed (network or
  unknown error).", and in both failure cases the image stays and the callback is not
  invoked.
\<close>

theorem upload_failures:
  "cap_imgSrc s = Some src \<and> src \<noteq> [] \<and> cap_productId s \<noteq> [] \<and> \<not> cap_uploading s \<longrightarrow>
     (response_error err = Some e \<and> e \<noteq> [] \<longrightarrow>
        handleUpload (Inl err :: js_error + 'a) onImageUploaded s
          = (s\<lparr>cap_message := ''Upload failed: '' @ e, cap_uploading := False\<rparr>, False))
     \<and> ((response_error err = None \<or> response_error err = Some [])
          \<and> err_message err = Some m \<and> str_includes (toLowerCase m) ''network'' \<longrightarrow>
        handleUpload (Inl err :: js_error + 'a) onImageUploaded s
          = (s\<lparr>cap_message :=
                  ''Image uploaded successfully! (network error, but likely succeeded)'',
                cap_imgSrc := None, cap_uploading := False\<rparr>, onImageUploaded))
     \<and> ((response_error err = None \<or> response_error err = Some [])
          \<and> (err_message err = None
               \<or> (err_message err = Some m \<and> \<not> str_includes (toLowerCase m) ''network'')) \<longrightarrow>
        handleUpload (Inl err :: js_error + 'a) onImageUploaded s
          = (s\<lparr>cap_message := ''Upload failed (network or unknown error).'',
                cap_uploading := False\<rparr>, False))"
proof -
  have empty: "\<not> str_includes (toLowerCase []) ''network''"
    by (simp add: toLowerCase_def)
  show ?thesis
    using empty by (auto simp: handleUpload_def)
qed

lemma mentions_network:
  "str_includes (toLowerCase ''Network Error'') ''network''"
  "\<not> str_includes (toLowerCase ''Request aborted'') ''network''"
  by code_simp+

theorem upload_failures_witness:
  "handleUpload (Inl upload_rejected :: js_error + unit) True capture_ready
     = (capture_ready\<lparr>cap_message := ''Upload failed: No image provided'',
                      cap_uploading := False\<rparr>, False)
   \<and> handleUpload (Inl network_error :: js_error + unit) True capture_ready
     = (capture_ready\<lparr>cap_message :=
                        ''Image uploaded successfully! (network error, but likely succeeded)'',
                      cap_imgSrc := None, cap_uploading := False\<rparr>, True)
   \<and> handleUpload (Inl aborted_error :: js_error + unit) True capture_ready
     = (capture_ready\<lparr>cap_message := ''Upload failed (network or unknown error).'',
                      cap_uploading := False\<rparr>, False)"
proof -
  have ready: "cap_imgSrc capture_ready = Some ''data:image/jpeg;base64,AAAA''
      \<and> ''data:image/jpeg;base64,AAAA'' \<noteq> [] \<and> cap_productId capture_ready \<noteq> []
      \<and> \<not> cap_uploading capture_ready"
    by (simp add: capture_ready_def)
  have r: "response_error upload_rejected = Some ''No image provided''
           \<and> ''No image provided'' \<noteq> []"
    by (simp add: upload_rejected_def response_error_def)
  have n: "(response_error network_error = None \<or> response_error network_error = Some [])
           \<and> err_message network_error = Some ''Network Error''
           \<and> str_includes (toLowerCase ''Network Error'') ''network''"
    by (simp add: network_error_def response_error_def mentions_network)
  have t: "(response_error aborted_error = None \<or> response_error aborted_error = Some [])
           \<and> (err_message aborted_error = None
                \<or> (err_message aborted_error = Some ''Request aborted''
                    \<and> \<not> str_includes (toLowerCase ''Request aborted'') ''network''))"
    by (simp add: aborted_error_def response_error_def mentions_network)
  note a = upload_failures [where 'a = unit and s = capture_ready
      and src = "''data:image/jpeg;base64,AAAA''" and onImageUploaded = True]
  from a [where err = upload_rejected and e = "''No image provided''"]
    a [where err = network_error and m = "''Network Error''"]
    a [where err = aborted_error and m = "''Request aborted''"]
    ready r n t
  show ?thesis by (simp del: str_includes.simps)
qed

section \<open>Single-flight project creation\<close>

lemma remove_nth_single: "i < length xs \<Longrightarrow> length xs = 1 \<Longrightarrow> remove_nth i xs = []"
  by (cases xs) (auto simp: remove_nth_def)

lemma finally_inflight [simp]:
  "pc_inflight (createProject_finally s) = pc_inflight s"
  "isCreatingRef (createProject_finally s) = False"
  "abortControllerRef (createProject_finally s) = None"
  "pc_effects (createProject_finally s) = pc_effects s"
  by (simp_all add: createProject_finally_def)

lemma invoke_inv: "single_flight s \<Longrightarrow> single_flight (createProject l r s)"
  by (auto simp: single_flight_def createProject_def Let_def split: if_splits option.splits)

lemma posted_inv:
  "pc_inflight s = [] \<Longrightarrow> isCreatingRef s \<Longrightarrow> abortControllerRef s \<noteq> None \<Longrightarrow>
   single_flight (createProject_posted res s)"
  by (auto simp: single_flight_def createProject_posted_def split: sum.splits option.splits)

lemma fetched_inv:
  "pc_inflight s = [] \<Longrightarrow> single_flight (createProject_fetched res s)"
  by (auto simp: single_flight_def createProject_fetched_def split: sum.splits)

lemma step_inv: "single_flight s \<Longrightarrow> single_flight (creator_step e s)"
proof (cases e)
  case (Invoke l r)
  assume "single_flight s"
  then show ?thesis using Invoke by (simp add: invoke_inv)
next
  case (PostSettled i res)
  assume inv: "single_flight s"
  show ?thesis
  proof (cases "i < length (pc_inflight s) \<and> pc_inflight s ! i = AwaitPost")
    case True
    with inv have l: "length (pc_inflight s) = 1" "isCreatingRef s" "abortControllerRef s \<noteq> None"
      by (auto simp: single_flight_def split: if_splits)
    with True have "remove_nth i (pc_inflight s) = []" by (simp add: remove_nth_single)
    then have "single_flight (createProject_posted res (s\<lparr>pc_inflight := remove_nth i (pc_inflight s)\<rparr>))"
      using l by (intro posted_inv) simp_all
    with True PostSettled show ?thesis by simp
  next
    case False
    with inv PostSettled show ?thesis by auto
  qed
next
  case (FetchSettled i res)
  assume inv: "single_flight s"
  show ?thesis
  proof (cases "i < length (pc_inflight s) \<and> pc_inflight s ! i = AwaitFetch")
    case True
    with inv have l: "length (pc_inflight s) = 1"
      by (auto simp: single_flight_def split: if_splits)
    with True have "remove_nth i (pc_inflight s) = []" by (simp add: remove_nth_single)
    then have "single_flight (createProject_fetched res (s\<lparr>pc_inflight := remove_nth i (pc_inflight s)\<rparr>))"
      by (intro fetched_inv) simp
    with True FetchSettled show ?thesis by simp
  next
    case False
    with inv FetchSettled show ?thesis by auto
  qed
next
  case (SelectProduct v)
  assume "single_flight s"
  then show ?thesis using SelectProduct by (auto simp: single_flight_def)
next
  case Unmount
  assume "single_flight s"
  then show ?thesis using Unmount
    by (auto simp: single_flight_def split: option.splits if_splits)
qed

lemma run_inv: "single_flight s \<Longrightarrow> single_flight (creator_run es s)"
  by (induction es arbitrary: s) (auto simp: step_inv)

lemma initial_inv: "single_flight creator_initial"
  by (simp add: single_flight_def creator_initial_def)

lemma invoke_aborts: "single_flight s \<Longrightarrow> aborts (createProject l r s) = aborts s"
  by (auto simp: single_flight_def createProject_def aborts_def Let_def
      split: if_splits option.splits)

lemma invoke_pending:
  "single_flight s \<Longrightarrow> pc_inflight s \<noteq> [] \<Longrightarrow>
   createProject l r s = (if pc_selectedProduct s = [] then s\<lparr>pc_error := ''Please select a product''\<rparr> else s)"
  by (auto simp: single_flight_def createProject_def)

lemma step_aborts:
  "single_flight s \<Longrightarrow> e \<noteq> Unmount \<Longrightarrow> aborts (creator_step e s) = aborts s"
proof (cases e)
  case (Invoke l r)
  assume "single_flight s"
  then show ?thesis using Invoke by (simp add: invoke_aborts)
next
  case (PostSettled i res)
  then show ?thesis
    by (auto simp: aborts_def createProject_posted_def split: sum.splits option.splits)
next
  case (FetchSettled i res)
  then show ?thesis
    by (auto simp: aborts_def createProject_fetched_def split: sum.splits)
next
  case (SelectProduct v)
  then show ?thesis by (auto simp: aborts_def)
next
  case Unmount
  assume "e \<noteq> Unmount"
  with Unmount show ?thesis by simp
qed

lemma run_aborts:
  "single_flight s \<Longrightarrow> Unmount \<notin> set es \<Longrightarrow> aborts (creator_run es s) = aborts s"
proof (induction es arbitrary: s)
  case Nil
  then show ?case by simp
next
  case (Cons e es)
  then have "aborts (creator_run es (creator_step e s)) = aborts (creator_step e s)"
    by (intro Cons.IH) (auto simp: step_inv)
  with Cons.prems show ?case by (auto simp: step_aborts)
qed


lemma two_clicks_state:
  "creator_run two_clicks creator_initial =
     \<lparr>pc_products = [], pc_selectedProduct = ''7'', pc_loading = True, pc_success = [],
      pc_error = [], isCreatingRef = True, abortControllerRef = Some 0, pc_controllers = 1,
      pc_effects = [PostCreateProject 0 ''7'' ''r1''], pc_inflight = [AwaitPost]\<rparr>"
  by (simp add: two_clicks_def creator_initial_def createProject_def)

text \<open>
  C5, as stated, fails on the code: the second of two rapid invocations does not cancel
  the first. It returns at the \<open>isCreatingRef\<close> guard, before the line that aborts the
  previous controller, so after both invocations one request has been sent, no abort has
  been asked for, and the first call is still in flight.
\<close>

theorem two_clicks_counterexample:
  "pc_effects (creator_run two_clicks creator_initial) = [PostCreateProject 0 ''7'' ''r1'']
   \<and> Abort 0 \<notin> set (pc_effects (creator_run two_clicks creator_initial))
   \<and> aborts (creator_run two_clicks creator_initial) = []
   \<and> pc_inflight (creator_run two_clicks creator_initial) = [AwaitPost]"
  by (simp add: two_clicks_state aborts_def)


text \<open>
  C5, amended. In every state the project creator reaches, at most one invocation of
  \<open>createProject\<close> is in flight. An invocation while one is pending is ignored, not
  queued: it sends no request and adds no pending call, and when a product is selected
  it changes nothing at all. No invocation of \<open>createProject\<close> ever asks for a
  cancellation; without an unmount, no request is ever cancelled. Two rapid invocations
  for product 7 therefore send one request, and when it and the refresh that follows
  succeed, the component shows the one success, holds the refreshed products and has
  nothing in flight.
\<close>

theorem single_flight_creation:
  "(let s = creator_run events creator_initial
    in length (pc_inflight s) \<le> 1
       \<and> (pc_inflight s \<noteq> [] \<longrightarrow>
            pc_effects (createProject closureLoading requestId s) = pc_effects s
            \<and> pc_inflight (createProject closureLoading requestId s) = pc_inflight s
            \<and> (pc_selectedProduct s \<noteq> [] \<longrightarrow> createProject closureLoading requestId s = s))
       \<and> aborts (createProject closureLoading requestId s) = aborts s
       \<and> (Unmount \<notin> set events \<longrightarrow> aborts s = []))
   \<and> creator_run (two_clicks @ [PostSettled 0 (Inr ''Widget''), FetchSettled 0 (Inr rows)])
        creator_initial
      = \<lparr>pc_products = rows, pc_selectedProduct = [], pc_loading = False,
          pc_success = ''Project '' @ [CHR 0x22] @ ''Widget'' @ [CHR 0x22]
                         @ '' created successfully!'',
          pc_error = [], isCreatingRef = False, abortControllerRef = None, pc_controllers = 1,
          pc_effects = [PostCreateProject 0 ''7'' ''r1'', GetExistingProjects],
          pc_inflight = []\<rparr>"
proof -
  let ?s = "creator_run events creator_initial"
  have inv: "single_flight ?s" using initial_inv by (rule run_inv)
  have a: "length (pc_inflight ?s) \<le> 1"
    using inv by (auto simp: single_flight_def split: if_splits)
  have b: "pc_inflight ?s \<noteq> [] \<longrightarrow>
            pc_effects (createProject closureLoading requestId ?s) = pc_effects ?s
            \<and> pc_inflight (createProject closureLoading requestId ?s) = pc_inflight ?s
            \<and> (pc_selectedProduct ?s \<noteq> [] \<longrightarrow> createProject closureLoading requestId ?s = ?s)"
    using invoke_pending [OF inv] by simp
  have c: "aborts (createProject closureLoading requestId ?s) = aborts ?s"
    using inv by (rule invoke_aborts)
  have d: "Unmount \<notin> set events \<longrightarrow> aborts ?s = []"
    using run_aborts [OF initial_inv, of events]
    by (simp add: aborts_def creator_initial_def)
  have e: "creator_run (two_clicks @ [PostSettled 0 (Inr ''Widget''), FetchSettled 0 (Inr rows)])
        creator_initial
      = \<lparr>pc_products = rows, pc_selectedProduct = [], pc_loading = False,
          pc_success = ''Project '' @ [CHR 0x22] @ ''Widget'' @ [CHR 0x22]
                         @ '' created successfully!'',
          pc_error = [], isCreatingRef = False, abortControllerRef = None, pc_controllers = 1,
          pc_effects = [PostCreateProject 0 ''7'' ''r1'', GetExistingProjects],
          pc_inflight = []\<rparr>"
    by (simp add: two_clicks_def creator_initial_def createProject_def createProject_posted_def
        createProject_fetched_def createProject_finally_def remove_nth_def)
  from a b c d e show ?thesis unfolding Let_def by blast
qed

theorem single_flight_creation_witness:
  "length (pc_inflight (creator_run two_clicks (creator_initial :: string creator_state))) \<le> 1
   \<and> pc_inflight (creator_run two_clicks (creator_initial :: string creator_state)) \<noteq> []
   \<and> createProject True ''r3'' (creator_run two_clicks (creator_initial :: string creator_state))
       = creator_run two_clicks creator_initial
   \<and> aborts (creator_run two_clicks (creator_initial :: string creator_state)) = []"
proof -
  have h: "pc_inflight (creator_run two_clicks (creator_initial :: string creator_state)) \<noteq> []"
    "pc_selectedProduct (creator_run two_clicks (creator_initial :: string creator_state)) \<noteq> []"
    by (simp_all add: two_clicks_state)
  have u: "Unmount \<notin> set two_clicks" by (simp add: two_clicks_def)
  from single_flight_creation [where events = two_clicks and closureLoading = True
         and requestId = "''r3''" and rows = "[]"] h u
  show ?thesis unfolding Let_def by blast
qed

end
